theory Spec2Isabelle
  imports Main
begin

section \<open>Python values, faults and submissions\<close>

text \<open>
  The verification engine of \<^verbatim>\<open>backend/main/text.py\<close>. A raised exception is a value
  \<open>Inl e\<close> of the result type; a returned Python object is \<open>Inr v\<close>.
\<close>

datatype error =
    SyntaxError | AssertionError | ValueError | TypeError | KeyError
  | IndexError | AttributeError | TypeNotSupported | OtherError string

type_synonym pytype = string

text \<open>
  A Python function object, as far as the engine inspects it: \<open>__name__\<close>, the parameters
  of \<open>inspect.signature\<close> in order, each with its annotation if it has one, the return
  annotation, and the function that a call without arguments returns (for the wrapper form
  \<^verbatim>\<open>def solution(): def f(_, x): ...; return f\<close>).
\<close>

datatype func = Func
  (f_name: string)
  (f_params: "(string \<times> pytype option) list")
  (f_return: "pytype option")
  (f_call0: "func option")

text \<open>
  The objects a check returns or a console binds. \<open>PyObject b\<close> is any other object, with
  its truth value \<open>b\<close> (a regex match object is \<open>PyObject True\<close>).
\<close>

datatype pyval =
    PyNone
  | PyBool bool
  | PyInt int
  | PyStr string
  | PyList "pyval list"
  | PyDict "(string \<times> pyval) list"
  | PyFunction func
  | PyObject bool

fun truthy :: "pyval \<Rightarrow> bool" where
  "truthy PyNone = False"
| "truthy (PyBool b) = b"
| "truthy (PyInt n) = (n \<noteq> 0)"
| "truthy (PyStr s) = (s \<noteq> [])"
| "truthy (PyList xs) = (xs \<noteq> [])"
| "truthy (PyDict kvs) = (kvs \<noteq> [])"
| "truthy (PyFunction f) = True"
| "truthy (PyObject b) = b"

fun is_dict :: "pyval \<Rightarrow> bool" where
  "is_dict (PyDict kvs) = True"
| "is_dict v = False"

text \<open>\<^verbatim>\<open>dict(message=s)\<close>\<close>

definition dict_message :: "string \<Rightarrow> pyval" where
  "dict_message s = PyDict [(''message'', PyStr s)]"

text \<open>
  The arguments of \<^verbatim>\<open>Step.__init__\<close>: \<^verbatim>\<open>self.input, self.result, self.code_source,
  self.console\<close>; of the console only \<^verbatim>\<open>console.locals\<close> is read.
\<close>

record submission =
  input :: string
  result :: pyval
  code_source :: string
  console_locals :: "string \<rightharpoonup> pyval"

text \<open>
  The calls the engine makes while it checks a submission, in the order it makes them. The
  model emits one event at each call site, so that "no further check runs" is a statement
  about the trace.
\<close>

datatype event =
    CallCheck string        \<comment> \<open>\<^verbatim>\<open>check()\<close> of the class of this name\<close>
  | CallParse string        \<comment> \<open>\<^verbatim>\<open>ast.parse\<close> of this text\<close>
  | CallIsAstLike           \<comment> \<open>\<^verbatim>\<open>is_ast_like\<close>\<close>
  | CallLocals string       \<comment> \<open>look-up of this name in \<^verbatim>\<open>console.locals\<close>\<close>
  | CallIsFunction string   \<comment> \<open>\<^verbatim>\<open>inspect.isfunction\<close> of the binding of this name\<close>
  | CallSignature string    \<comment> \<open>\<^verbatim>\<open>inspect.signature\<close> of the function of this name\<close>
  | CallCheckExercise       \<comment> \<open>\<^verbatim>\<open>check_exercise\<close>: the test cases run\<close>

type_synonym 'a comp = "event list \<times> (error + 'a)"

section \<open>Step classes\<close>

text \<open>
  \<^verbatim>\<open>tests\<close>: pairs of inputs and expected result; the inputs are a dict of named values, a
  tuple of positional values, or a single value.
\<close>

datatype test_inputs =
    InputsDict "(string \<times> pyval) list"
  | InputsTuple "pyval list"
  | InputsSingle pyval

type_synonym tests = "(test_inputs \<times> pyval) list"

text \<open>\<^verbatim>\<open>cls.program\<close> is source text or a function object; \<^verbatim>\<open>cls.hints\<close> a string or a sequence.\<close>

datatype program_src = ProgramText string | ProgramFunction func

datatype hints_src = HintsStr string | HintsList "string list"

text \<open>
  The \<^verbatim>\<open>check\<close> method a concrete class resolves to: \<^verbatim>\<open>VerbatimStep.check\<close>,
  \<^verbatim>\<open>ExerciseStep.check\<close>, or a method written in a chapter file, which is any function of
  the submission. (\<^verbatim>\<open>Step.check\<close> is abstract: a class without one cannot be instantiated.)
\<close>

datatype check_method =
    VerbatimCheck
  | ExerciseCheck
  | OtherCheck "submission \<Rightarrow> error + pyval"

text \<open>
  What the body of one class says about an attribute that is looked up along the bases:
  nothing, an abstract method, or a value.
\<close>

datatype 'a slot = Unset | AbstractMethod | Defined 'a

text \<open>
  The namespace of one class of a linearisation, as far as look-up along the bases matters
  to the engine: the identity of the class object, and what its body (or a later assignment
  to the class) defines for \<^verbatim>\<open>check\<close>, \<^verbatim>\<open>solution\<close>, \<^verbatim>\<open>expected_code_source\<close> and
  \<^verbatim>\<open>after_success\<close>.
\<close>

record layer =
  layer_id :: string
  layer_check :: "check_method slot"
  layer_solution :: "func slot"
  layer_expected_code_source :: "string option option"
  layer_after_success :: "bool option"

text \<open>
  A Step class: its name, the attributes that normalisation reads and sets, as look-up on
  the class finds them, and its method resolution order \<open>mro\<close>, the class itself first
  (\<^verbatim>\<open>ABC\<close> and \<^verbatim>\<open>object\<close>, which define none of the attributes, are left out).
\<close>

record step_attrs =
  name :: string
  step_text :: string
  doc :: string
  program :: program_src
  program_in_text :: bool
  hints :: hints_src
  tests :: tests
  mro :: "layer list"

text \<open>Attribute look-up: the first class of the linearisation that defines the attribute.\<close>

fun first_defined :: "(layer \<Rightarrow> 'a slot) \<Rightarrow> layer list \<Rightarrow> 'a slot" where
  "first_defined f [] = Unset"
| "first_defined f (l # ls) = (case f l of Unset \<Rightarrow> first_defined f ls | v \<Rightarrow> v)"

fun first_some :: "(layer \<Rightarrow> 'a option) \<Rightarrow> layer list \<Rightarrow> 'a option" where
  "first_some f [] = None"
| "first_some f (l # ls) = (case f l of None \<Rightarrow> first_some f ls | Some v \<Rightarrow> Some v)"

text \<open>
  \<open>check_method\<close> and \<open>solution\<close> are \<open>None\<close> when look-up ends at the abstract method of
  \<^verbatim>\<open>Step\<close> or \<^verbatim>\<open>ExerciseStep\<close>. \<open>own_solution\<close> is \<^verbatim>\<open>cls.__dict__.get("solution", "")\<close>, \<open>None\<close>
  when the class itself defines none. \<^verbatim>\<open>after_success\<close> is read on message classes only,
  which all have it from \<^verbatim>\<open>MessageStep\<close>.
\<close>

definition check_method :: "step_attrs \<Rightarrow> check_method option" where
  "check_method a = (case first_defined layer_check (mro a) of Defined m \<Rightarrow> Some m | other \<Rightarrow> None)"

definition solution :: "step_attrs \<Rightarrow> func option" where
  "solution a = (case first_defined layer_solution (mro a) of Defined f \<Rightarrow> Some f | other \<Rightarrow> None)"

definition own_solution :: "step_attrs \<Rightarrow> func option" where
  "own_solution a =
     (case mro a of
        [] \<Rightarrow> None
      | l # ls \<Rightarrow> (case layer_solution l of Defined f \<Rightarrow> Some f | other \<Rightarrow> None))"

definition expected_code_source :: "step_attrs \<Rightarrow> string option" where
  "expected_code_source a =
     (case first_some layer_expected_code_source (mro a) of None \<Rightarrow> None | Some v \<Rightarrow> v)"

definition after_success :: "step_attrs \<Rightarrow> bool" where
  "after_success a =
     (case first_some layer_after_success (mro a) of None \<Rightarrow> False | Some b \<Rightarrow> b)"

text \<open>\<^verbatim>\<open>issubclass(cls, MessageStep)\<close> and \<^verbatim>\<open>issubclass(cls, ExerciseStep)\<close>\<close>

definition is_message :: "step_attrs \<Rightarrow> bool" where
  "is_message a = (''MessageStep'' \<in> set (map layer_id (mro a)))"

definition is_exercise :: "step_attrs \<Rightarrow> bool" where
  "is_exercise a = (''ExerciseStep'' \<in> set (map layer_id (mro a)))"

text \<open>
  The classes of \<^verbatim>\<open>text.py\<close> itself: \<^verbatim>\<open>Step\<close> (abstract \<^verbatim>\<open>check\<close>,
  \<^verbatim>\<open>expected_code_source = None\<close>), \<^verbatim>\<open>VerbatimStep\<close> and \<^verbatim>\<open>ExerciseStep\<close> (each with its
  \<^verbatim>\<open>check\<close>, the latter with the abstract \<^verbatim>\<open>solution\<close>), \<^verbatim>\<open>MessageStep\<close>
  (\<^verbatim>\<open>after_success = False\<close>); and a class whose body defines none of the four.
\<close>

definition Step_layer :: layer where
  "Step_layer = \<lparr>layer_id = ''Step'', layer_check = AbstractMethod, layer_solution = Unset,
     layer_expected_code_source = Some None, layer_after_success = None\<rparr>"

definition VerbatimStep_layer :: layer where
  "VerbatimStep_layer = \<lparr>layer_id = ''VerbatimStep'', layer_check = Defined VerbatimCheck,
     layer_solution = Unset, layer_expected_code_source = None, layer_after_success = None\<rparr>"

definition ExerciseStep_layer :: layer where
  "ExerciseStep_layer = \<lparr>layer_id = ''ExerciseStep'', layer_check = Defined ExerciseCheck,
     layer_solution = AbstractMethod, layer_expected_code_source = None,
     layer_after_success = None\<rparr>"

definition MessageStep_layer :: layer where
  "MessageStep_layer = \<lparr>layer_id = ''MessageStep'', layer_check = Unset,
     layer_solution = Unset, layer_expected_code_source = None,
     layer_after_success = Some False\<rparr>"

definition plain_layer :: "string \<Rightarrow> layer" where
  "plain_layer ident = \<lparr>layer_id = ident, layer_check = Unset, layer_solution = Unset,
     layer_expected_code_source = None, layer_after_success = None\<rparr>"

text \<open>
  A class: its attributes, the other members of its namespace in the order of the class
  body (\<open>Some c\<close> a nested Step class, \<open>None\<close> any other member), and \<^verbatim>\<open>cls.messages\<close>.
\<close>

datatype step_cls = StepCls
  (attrs: step_attrs)
  (members: "(string \<times> step_cls option) list")
  (messages: "step_cls list")

section \<open>External collaborators\<close>

text \<open>
  Library functions and the modules \<^verbatim>\<open>main.exercises\<close> and \<^verbatim>\<open>main.utils\<close> are parameters:
  \<^verbatim>\<open>ast.parse\<close>, \<^verbatim>\<open>astcheck.is_ast_like\<close>, \<^verbatim>\<open>check_exercise\<close> and \<^verbatim>\<open>generate_for_type\<close>.
  \<^verbatim>\<open>check_exercise\<close> takes the candidate (the submitted text, with \<^verbatim>\<open>functionise=True\<close>, or a
  function, or \<^verbatim>\<open>partial(solution, None)\<close>), the reference solution (\<open>None\<close>: the abstract method
  of \<^verbatim>\<open>ExerciseStep\<close>), and the class whose \<^verbatim>\<open>test_exercise\<close> and
  \<^verbatim>\<open>generate_inputs\<close> it is given. \<^verbatim>\<open>no_weird_whitespace\<close> is \<open>True\<close> where the assertion of
  \<^verbatim>\<open>main.utils.no_weird_whitespace\<close> holds. \<open>function_program\<close> is the text that lines 38 to
  52 of \<^verbatim>\<open>clean_program\<close> derive from the source of a function and the first test inputs
  (\<^verbatim>\<open>inspect.getsource\<close>, \<^verbatim>\<open>ASTTokens\<close>, \<^verbatim>\<open>inputs_string\<close>, \<^verbatim>\<open>compile\<close>), or the fault they
  raise. \<open>str_lower\<close> is \<^verbatim>\<open>str.lower\<close>. The others are the text functions of the standard
  library and \<^verbatim>\<open>markdown\<close>; \<open>re_sub_program_indented text indented\<close> is
  \<^verbatim>\<open>re.sub(r" *__program_indented__", indented, text, flags=re.MULTILINE)\<close>.
  \<open>attribute_fault nm\<close> is the fault that \<^verbatim>\<open>check_step\<close> raises for a name \<open>nm\<close> that
  \<^verbatim>\<open>getattr\<close> does not find in the namespace of the page class: the fault of a property of
  \<^verbatim>\<open>PageMeta\<close> (which reads the registry of pages) or of calling its value, the fault of
  calling an attribute of \<^verbatim>\<open>Page\<close>, \<^verbatim>\<open>object\<close> or \<^verbatim>\<open>type\<close> with the four arguments (or of the
  missing method of what that returns), \<^verbatim>\<open>AttributeError\<close> when there is no such attribute.
\<close>

datatype candidate = FromSource string | FromFunction func | FromPartial "func option"

record 'ast env =
  ast_parse :: "string \<Rightarrow> error + 'ast"
  is_ast_like :: "'ast \<Rightarrow> 'ast \<Rightarrow> bool"
  check_exercise :: "candidate \<Rightarrow> func option \<Rightarrow> step_cls \<Rightarrow> error + pyval"
  generate_for_type :: "pytype \<Rightarrow> error + pyval"
  str_lower :: "string \<Rightarrow> string"
  attribute_fault :: "string \<Rightarrow> error"
  no_weird_whitespace :: "string \<Rightarrow> bool"
  function_program :: "func \<Rightarrow> (string \<times> pyval) list \<Rightarrow> error + string"
  markdown :: "string \<Rightarrow> string"
  dedent :: "string \<Rightarrow> string"
  strip :: "string \<Rightarrow> string"
  splitlines :: "string \<Rightarrow> string list"
  indent :: "string \<Rightarrow> string \<Rightarrow> string"
  replace :: "string \<Rightarrow> string \<Rightarrow> string \<Rightarrow> string"
  re_sub_program_indented :: "string \<Rightarrow> string \<Rightarrow> string"

section \<open>The structural matcher\<close>

definition case_message :: string where
  "case_message =
     ''Python is case sensitive! That means that small and capital letters '' @
     ''matter and changing them changes the meaning of the program. The strings '' @
     [CHR 0x60] @ [CHR 0x27] @ ''hello'' @ [CHR 0x27] @ [CHR 0x60] @ '' and '' @
     [CHR 0x60] @ [CHR 0x27] @ ''Hello'' @ [CHR 0x27] @ [CHR 0x60] @
     '' are different, as are the variable names '' @
     [CHR 0x60] @ ''word'' @ [CHR 0x60] @ '' and '' @ [CHR 0x60] @ ''Word'' @ [CHR 0x60] @ ''.''"

text \<open>
  \<^verbatim>\<open>Step.tree_matches\<close>. The submission is parsed first (\<^verbatim>\<open>self.tree\<close>), then the template;
  a fault of either parse propagates. Falling off the end returns \<^verbatim>\<open>None\<close>.
\<close>

definition tree_matches :: "'ast env \<Rightarrow> submission \<Rightarrow> string \<Rightarrow> pyval comp" where
  "tree_matches E sub template =
     (case ast_parse E (input sub) of
        Inl e \<Rightarrow> ([CallParse (input sub)], Inl e)
      | Inr t \<Rightarrow>
     (case ast_parse E template of
        Inl e \<Rightarrow> ([CallParse (input sub), CallParse template], Inl e)
      | Inr tt \<Rightarrow>
     if is_ast_like E t tt
     then ([CallParse (input sub), CallParse template, CallIsAstLike], Inr (PyBool True))
     else
     (case ast_parse E (str_lower E (input sub)) of
        Inl e \<Rightarrow> ([CallParse (input sub), CallParse template, CallIsAstLike,
                   CallParse (str_lower E (input sub))], Inl e)
      | Inr lt \<Rightarrow>
     (case ast_parse E (str_lower E template) of
        Inl e \<Rightarrow> ([CallParse (input sub), CallParse template, CallIsAstLike,
                   CallParse (str_lower E (input sub)), CallParse (str_lower E template)], Inl e)
      | Inr ltt \<Rightarrow>
        ([CallParse (input sub), CallParse template, CallIsAstLike,
          CallParse (str_lower E (input sub)), CallParse (str_lower E template), CallIsAstLike],
         Inr (if is_ast_like E lt ltt then dict_message case_message else PyNone))))))"

text \<open>
  \<^verbatim>\<open>Step.matches_program\<close>: after normalisation \<^verbatim>\<open>self.program\<close> is text; \<^verbatim>\<open>ast.parse\<close> of a
  function object raises \<^verbatim>\<open>TypeError\<close>, after the submission has been parsed.
\<close>

definition matches_program :: "'ast env \<Rightarrow> step_cls \<Rightarrow> submission \<Rightarrow> pyval comp" where
  "matches_program E cls sub =
     (case program (attrs cls) of
        ProgramText p \<Rightarrow> tree_matches E sub p
      | ProgramFunction f \<Rightarrow>
          (case ast_parse E (input sub) of
             Inl e \<Rightarrow> ([CallParse (input sub)], Inl e)
           | Inr t \<Rightarrow> ([CallParse (input sub)], Inl TypeError)))"

definition VerbatimStep_check :: "'ast env \<Rightarrow> step_cls \<Rightarrow> submission \<Rightarrow> pyval comp" where
  "VerbatimStep_check E cls sub = matches_program E cls sub"

section \<open>The behavioural verifier\<close>

fun join :: "string \<Rightarrow> string list \<Rightarrow> string" where
  "join sep [] = []"
| "join sep [x] = x"
| "join sep (x # y # ys) = x @ sep @ join sep (y # ys)"

text \<open>
  \<^verbatim>\<open>basic_signature\<close>, applied to the parameter names that \<^verbatim>\<open>inspect.signature\<close> gives.
\<close>

definition basic_signature :: "string list \<Rightarrow> bool \<Rightarrow> string" where
  "basic_signature param_names remove_first =
     (let param_names = (if remove_first then drop 1 param_names else param_names);
          joined = join '', '' param_names
      in ''('' @ joined @ '')'')"

text \<open>
  \<^verbatim>\<open>inspect.signature\<close> of a plain function lists all its parameters; of a bound method
  (\<^verbatim>\<open>self.solution\<close> on an instance) it lists them without the first, and raises
  \<^verbatim>\<open>ValueError\<close> when there is none.
\<close>

definition signature_function :: "func \<Rightarrow> string list" where
  "signature_function f = map fst (f_params f)"

definition signature_bound :: "func \<Rightarrow> error + string list" where
  "signature_bound f =
     (case f_params f of [] \<Rightarrow> Inl ValueError | p # ps \<Rightarrow> Inr (map fst ps))"

definition backtick :: string where
  "backtick = [CHR 0x60]"

definition newline :: string where
  "newline = [CHR 0x0A]"

definition signature_message :: "string \<Rightarrow> string \<Rightarrow> string \<Rightarrow> string" where
  "signature_message function_name needed_signature actual_signature =
     ''The signature should be:'' @ newline @ newline @
     ''    def '' @ function_name @ needed_signature @ '':'' @ newline @ newline @
     ''not:'' @ newline @ newline @
     ''    def '' @ function_name @ actual_signature @ '':''"

text \<open>
  \<^verbatim>\<open>ExerciseStep.check\<close>. (An \<^verbatim>\<open>ExerciseStep\<close> without a solution is abstract and has no
  instance; the model gives the \<^verbatim>\<open>TypeError\<close> of the instantiation.)
\<close>

definition ExerciseStep_check :: "'ast env \<Rightarrow> step_cls \<Rightarrow> submission \<Rightarrow> pyval comp" where
  "ExerciseStep_check E cls sub =
     (if code_source sub = ''shell'' then ([], Inr (PyBool False))
      else
      (case solution (attrs cls) of
         None \<Rightarrow> ([], Inl TypeError)
       | Some sol \<Rightarrow>
      (let function_name = f_name sol in
       if function_name = ''solution''
       then ([CallCheckExercise], check_exercise E (FromSource (input sub)) (Some sol) cls)
       else
       (case console_locals sub function_name of
          None \<Rightarrow>
            ([CallLocals function_name],
             Inr (dict_message (''You must define a function '' @
                                backtick @ function_name @ backtick)))
        | Some (PyFunction func) \<Rightarrow>
            (case signature_bound sol of
               Inl e \<Rightarrow>
                 ([CallLocals function_name, CallIsFunction function_name,
                   CallSignature (f_name func), CallSignature (f_name sol)], Inl e)
             | Inr needed_params \<Rightarrow>
                 (let actual_signature = basic_signature (signature_function func) False;
                      needed_signature = basic_signature needed_params False
                  in if actual_signature \<noteq> needed_signature
                     then ([CallLocals function_name, CallIsFunction function_name,
                            CallSignature (f_name func), CallSignature (f_name sol)],
                           Inr (dict_message
                                  (signature_message function_name needed_signature
                                     actual_signature)))
                     else ([CallLocals function_name, CallIsFunction function_name,
                            CallSignature (f_name func), CallSignature (f_name sol),
                            CallCheckExercise],
                           check_exercise E (FromFunction func) (Some sol) cls)))
        | Some other \<Rightarrow>
            ([CallLocals function_name, CallIsFunction function_name],
             Inr (dict_message (backtick @ function_name @ backtick @
                                '' is not a function.'')))))))"

text \<open>
  \<^verbatim>\<open>typing.get_type_hints\<close> of a function: one entry for each annotated parameter, in
  order, and one for \<^verbatim>\<open>return\<close> when the result is annotated. A parameter without an
  annotation has no entry.
\<close>

definition get_type_hints :: "func \<Rightarrow> (string \<times> pytype) list" where
  "get_type_hints f =
     List.map_filter (\<lambda>(n, a). case a of None \<Rightarrow> None | Some t \<Rightarrow> Some (n, t)) (f_params f)
     @ (case f_return f of None \<Rightarrow> [] | Some t \<Rightarrow> [(''return'', t)])"

text \<open>The dict comprehension of \<^verbatim>\<open>generate_inputs\<close>: the first fault of a call ends it.\<close>

fun generate_items :: "'ast env \<Rightarrow> (string \<times> pytype) list \<Rightarrow> error + (string \<times> pyval) list" where
  "generate_items E [] = Inr []"
| "generate_items E ((nm, typ) # rest) =
     (case generate_for_type E typ of
        Inl e \<Rightarrow> Inl e
      | Inr v \<Rightarrow>
          (case generate_items E rest of
             Inl e \<Rightarrow> Inl e
           | Inr kvs \<Rightarrow> Inr ((nm, v) # kvs)))"

text \<open>\<^verbatim>\<open>ExerciseStep.generate_inputs\<close>\<close>

definition generate_inputs :: "'ast env \<Rightarrow> step_cls \<Rightarrow> error + pyval" where
  "generate_inputs E cls =
     (case solution (attrs cls) of
        None \<Rightarrow> Inl TypeError
      | Some sol \<Rightarrow>
          (case generate_items E (get_type_hints sol) of
             Inl e \<Rightarrow> Inl e
           | Inr kvs \<Rightarrow> Inr (PyDict kvs)))"

section \<open>Dispatch\<close>

text \<open>
  The call \<^verbatim>\<open>self.check()\<close>, resolved to the method of the class. (A class whose check is
  the abstract one has no instance; the model gives the \<^verbatim>\<open>TypeError\<close> of the instantiation.)
\<close>

definition check :: "'ast env \<Rightarrow> step_cls \<Rightarrow> submission \<Rightarrow> pyval comp" where
  "check E cls sub =
     (case check_method (attrs cls) of
        None \<Rightarrow> ([], Inl TypeError)
      | Some VerbatimCheck \<Rightarrow> VerbatimStep_check E cls sub
      | Some ExerciseCheck \<Rightarrow> ExerciseStep_check E cls sub
      | Some (OtherCheck f) \<Rightarrow> ([], f sub))"

text \<open>
  A class with an abstract method left (\<^verbatim>\<open>check\<close>, or \<^verbatim>\<open>solution\<close> of an
  \<^verbatim>\<open>ExerciseStep\<close>) cannot be instantiated: \<^verbatim>\<open>TypeError\<close>.
\<close>

definition is_abstract :: "step_cls \<Rightarrow> bool" where
  "is_abstract cls =
     ((case first_defined layer_check (mro (attrs cls)) of Defined m \<Rightarrow> False | other \<Rightarrow> True) \<or>
      (case first_defined layer_solution (mro (attrs cls)) of
         AbstractMethod \<Rightarrow> True | other \<Rightarrow> False))"

text \<open>
  \<^verbatim>\<open>MessageStep.message\<close> and \<^verbatim>\<open>MessageStep.check_message\<close>, which creates an instance of the
  message class with the arguments of the step and calls its check.
\<close>

definition message :: "step_cls \<Rightarrow> pyval" where
  "message cls = dict_message (step_text (attrs cls))"

definition check_message :: "'ast env \<Rightarrow> step_cls \<Rightarrow> submission \<Rightarrow> pyval comp" where
  "check_message E cls sub =
     (if is_abstract cls then ([], Inl TypeError)
      else (case check E cls sub of (t, r) \<Rightarrow> (CallCheck (name (attrs cls)) # t, r)))"

text \<open>
  The loop of \<^verbatim>\<open>Step.check_with_messages\<close> over \<^verbatim>\<open>self.messages\<close>. \<open>res\<close> (the local
  \<^verbatim>\<open>result\<close>) is a bool or a dict; \<^verbatim>\<open>result == message_cls.after_success\<close> holds for the bool of that value only, and
  \<^verbatim>\<open>and\<close> calls \<^verbatim>\<open>check_message\<close> only then.
\<close>

fun scan_messages :: "'ast env \<Rightarrow> step_cls list \<Rightarrow> submission \<Rightarrow> pyval \<Rightarrow> pyval comp" where
  "scan_messages E [] sub res = ([], Inr res)"
| "scan_messages E (message_cls # rest) sub res =
     (if res = PyBool (after_success (attrs message_cls))
      then
        (case check_message E message_cls sub of
           (t, Inl e) \<Rightarrow> (t, Inl e)
         | (t, Inr r) \<Rightarrow>
             if truthy r then (t, Inr (message message_cls))
             else (case scan_messages E rest sub res of (t', x) \<Rightarrow> (t @ t', x)))
      else scan_messages E rest sub res)"

text \<open>\<^verbatim>\<open>if not isinstance(result, dict): result = bool(result)\<close>\<close>

definition normalize_result :: "pyval \<Rightarrow> pyval" where
  "normalize_result r = (if is_dict r then r else PyBool (truthy r))"

text \<open>\<^verbatim>\<open>Step.check_with_messages\<close>\<close>

definition check_with_messages :: "'ast env \<Rightarrow> step_cls \<Rightarrow> submission \<Rightarrow> pyval comp" where
  "check_with_messages E cls sub =
     (if expected_code_source (attrs cls) \<noteq> None \<and>
         expected_code_source (attrs cls) \<noteq> Some (code_source sub)
      then ([], Inr (PyBool False))
      else
        (case check E cls sub of
           (t, Inl e) \<Rightarrow> (CallCheck (name (attrs cls)) # t, Inl e)
         | (t, Inr r) \<Rightarrow>
             (case scan_messages E (messages cls) sub (normalize_result r) of
                (t', x) \<Rightarrow> (CallCheck (name (attrs cls)) # t @ t', x))))"

text \<open>
  A page: the entries of the class namespace in the order of the class body (\<open>Some c\<close> a Step
  class, \<open>None\<close> any other value, which cannot be called), and \<^verbatim>\<open>final_text\<close> (\<open>None\<close> when it
  is not a string).
\<close>

record page =
  page_dict :: "(string \<times> step_cls option) list"
  final_text :: "string option"
  step_names :: "string list"
  step_texts :: "string list"

record code_entry =
  entry_step_name :: string
  entry_input :: string
  entry_source :: string

text \<open>The arguments of the instance that \<^verbatim>\<open>check_step\<close> creates:
  \<^verbatim>\<open>step_cls(code_entry['input'], output, code_entry['source'], console)\<close>.\<close>

definition entry_submission :: "code_entry \<Rightarrow> pyval \<Rightarrow> (string \<rightharpoonup> pyval) \<Rightarrow> submission" where
  "entry_submission entry output console =
     \<lparr>input = entry_input entry, result = output, code_source = entry_source entry,
      console_locals = console\<rparr>"

text \<open>
  The properties of the metaclass \<^verbatim>\<open>PageMeta\<close>: on the page class they come before its own
  namespace. The attributes that \<^verbatim>\<open>PageMeta.__init__\<close> assigns to every page class, a string
  and two lists, replace a class of that name.
\<close>

definition PageMeta_properties :: "string list" where
  "PageMeta_properties =
     [''slug'', ''title'', ''index'', ''next_page'', ''previous_page'', ''steps'', ''step_dicts'']"

definition PageMeta_assigned :: "string list" where
  "PageMeta_assigned = [''step_names'', ''step_texts'', ''final_text'']"

text \<open>
  \<^verbatim>\<open>getattr(cls, code_entry['step_name'])\<close> on a page class, followed by the call of the value
  as far as it decides whether there is a Step class to instantiate: a property of the
  metaclass or a name found only on \<^verbatim>\<open>Page\<close>, \<^verbatim>\<open>object\<close> or \<^verbatim>\<open>type\<close> gives the fault of the
  environment; a value that is no class cannot be called.
\<close>

definition page_getattr :: "'ast env \<Rightarrow> page \<Rightarrow> string \<Rightarrow> error + step_cls" where
  "page_getattr E cls nm =
     (if nm \<in> set PageMeta_properties then Inl (attribute_fault E nm)
      else if nm \<in> set PageMeta_assigned then Inl TypeError
      else
        (case map_of (page_dict cls) nm of
           None \<Rightarrow> Inl (attribute_fault E nm)
         | Some None \<Rightarrow> Inl TypeError
         | Some (Some step_cls) \<Rightarrow> Inr step_cls))"

text \<open>
  \<^verbatim>\<open>Page.check_step\<close>: only \<^verbatim>\<open>SyntaxError\<close> is caught, around \<^verbatim>\<open>check_with_messages\<close>; the
  look-up of the class and its instantiation are outside the \<^verbatim>\<open>try\<close>. An abstract class
  cannot be instantiated: \<^verbatim>\<open>TypeError\<close>.
\<close>

definition check_step ::
  "'ast env \<Rightarrow> page \<Rightarrow> code_entry \<Rightarrow> pyval \<Rightarrow> (string \<rightharpoonup> pyval) \<Rightarrow> pyval comp" where
  "check_step E cls entry output console =
     (case page_getattr E cls (entry_step_name entry) of
        Inl e \<Rightarrow> ([], Inl e)
      | Inr step_cls \<Rightarrow>
          if is_abstract step_cls then ([], Inl TypeError)
          else
          (let step = entry_submission entry output console
           in case check_with_messages E step_cls step of
                (t, Inl SyntaxError) \<Rightarrow> (t, Inr (PyBool False))
              | (t, r) \<Rightarrow> (t, r)))"

section \<open>Build-time normalisation\<close>

text \<open>\<^verbatim>\<open>get_solution_function\<close>: a solution without parameters is called, and what it returns is
  the solution. When that is no function, the next \<^verbatim>\<open>inspect.signature\<close> raises
  \<^verbatim>\<open>TypeError\<close>.\<close>

definition get_solution_function :: "func \<Rightarrow> error + func" where
  "get_solution_function sol =
     (if f_params sol \<noteq> [] then Inr sol
      else (case f_call0 sol of None \<Rightarrow> Inl TypeError | Some f \<Rightarrow> Inr f))"

text \<open>\<^verbatim>\<open>clean_program\<close>\<close>

definition clean_program ::
  "'ast env \<Rightarrow> program_src \<Rightarrow> (string \<times> pyval) list \<Rightarrow> error + string" where
  "clean_program E prog inputs =
     (case (case prog of
              ProgramFunction f \<Rightarrow> function_program E f inputs
            | ProgramText p \<Rightarrow> Inr p) of
        Inl e \<Rightarrow> Inl e
      | Inr p \<Rightarrow> if no_weird_whitespace E p then Inr (strip E p) else Inl AssertionError)"

text \<open>\<^verbatim>\<open>ExerciseStep.arg_names\<close>, on the class attribute (a plain function).\<close>

definition arg_names :: "func \<Rightarrow> string list" where
  "arg_names sol = drop 1 (signature_function sol)"

text \<open>
  \<^verbatim>\<open>ExerciseStep.test_values\<close>, run to its end as \<^verbatim>\<open>list(cls.test_values())\<close> does: inputs
  that are no dict are made a tuple and zipped with the argument names, under the assertion
  that there are as many.
\<close>

fun test_values :: "func \<Rightarrow> tests \<Rightarrow> error + ((string \<times> pyval) list \<times> pyval) list" where
  "test_values sol [] = Inr []"
| "test_values sol ((inputs, expected) # rest) =
     (case (case inputs of
              InputsDict d \<Rightarrow> Inr d
            | InputsTuple vs \<Rightarrow>
                if length (arg_names sol) = length vs
                then Inr (zip (arg_names sol) vs) else Inl AssertionError
            | InputsSingle v \<Rightarrow>
                if length (arg_names sol) = length [v]
                then Inr (zip (arg_names sol) [v]) else Inl AssertionError) of
        Inl e \<Rightarrow> Inl e
      | Inr d \<Rightarrow>
          (case test_values sol rest of
             Inl e \<Rightarrow> Inl e
           | Inr ys \<Rightarrow> Inr ((d, expected) # ys)))"

fun starts_with :: "string \<Rightarrow> string \<Rightarrow> bool" where
  "starts_with s [] = True"
| "starts_with [] (p # ps) = False"
| "starts_with (c # cs) (p # ps) = (c = p \<and> starts_with cs ps)"

text \<open>\<^verbatim>\<open>sub in s\<close> on strings\<close>

fun contains :: "string \<Rightarrow> string \<Rightarrow> bool" where
  "contains [] sub = (sub = [])"
| "contains (c # cs) sub = (starts_with (c # cs) sub \<or> contains cs sub)"

text \<open>\<^verbatim>\<open>bool(program)\<close>: a function object is true, a text is true when it is not empty.\<close>

fun program_set :: "program_src \<Rightarrow> bool" where
  "program_set (ProgramText p) = (p \<noteq> [])"
| "program_set (ProgramFunction f) = True"

text \<open>The assignment \<^verbatim>\<open>cls.solution = f\<close>, to the namespace of the class itself.\<close>

definition assign_solution :: "func \<Rightarrow> layer list \<Rightarrow> layer list" where
  "assign_solution f ls =
     (case ls of [] \<Rightarrow> [] | l # rest \<Rightarrow> l\<lparr>layer_solution := Defined f\<rparr> # rest)"

text \<open>
  Lines 75 to 108 of \<^verbatim>\<open>clean_step_class\<close>: the assertions, and the new values of
  \<^verbatim>\<open>solution\<close>, \<^verbatim>\<open>program\<close>, \<^verbatim>\<open>hints\<close> and \<^verbatim>\<open>text\<close>. (\<^verbatim>\<open>cls.solution\<close> is assigned at once;
  the other three are set by \<^verbatim>\<open>setattrs\<close> at the end of \<^verbatim>\<open>clean_step_class\<close>.)
\<close>

definition clean_attrs :: "'ast env \<Rightarrow> step_attrs \<Rightarrow> error + step_attrs" where
  "clean_attrs E a =
     (let text0 = (if step_text a \<noteq> [] then step_text a else doc a) in
      if \<not> ((own_solution a \<noteq> None) \<noteq> program_set (program a)) then Inl AssertionError
      else if text0 = [] then Inl AssertionError
      else if \<not> no_weird_whitespace E text0 then Inl AssertionError
      else
      (case (case own_solution a of
               Some sol \<Rightarrow>
                 if tests a = [] then Inl AssertionError
                 else
                 (case get_solution_function sol of
                    Inl e \<Rightarrow> Inl e
                  | Inr sol' \<Rightarrow>
                 (case test_values sol' (tests a) of
                    Inl e \<Rightarrow> Inl e
                  | Inr [] \<Rightarrow> Inl IndexError
                  | Inr ((inputs, expected) # others) \<Rightarrow>
                 (case clean_program E (ProgramFunction sol) inputs of
                    Inl e \<Rightarrow> Inl e
                  | Inr p \<Rightarrow> Inr (assign_solution sol' (mro a), p))))
             | None \<Rightarrow>
                 (case clean_program E (program a) [] of
                    Inl e \<Rightarrow> Inl e
                  | Inr p \<Rightarrow> Inr (mro a, p))) of
         Inl e \<Rightarrow> Inl e
       | Inr (mro', program') \<Rightarrow>
      if program' = [] then Inl AssertionError
      else
      (let hints0 = (case hints a of
                       HintsStr h \<Rightarrow> splitlines E (strip E h)
                     | HintsList hs \<Rightarrow> hs);
           hints' = map (markdown E) hints0
       in
       if \<not> contains text0 ''__program_'' \<and> program_in_text a then Inl AssertionError
       else
       (let text1 =
              (if contains text0 ''__program_''
               then re_sub_program_indented E
                      (replace E text0 ''__program__'' program')
                      (indent E program' ''    '')
               else text0)
        in
        if contains text1 ''__program_'' then Inl AssertionError
        else Inr (a\<lparr>step_text := markdown E (strip E (dedent E text1)),
                     program := ProgramText program',
                     hints := HintsList hints',
                     mro := mro'\<rparr>)))))"

text \<open>
  \<^verbatim>\<open>inspect.getmembers\<close> returns the members sorted by name; the names of a namespace are
  distinct. Strings compare by code point, the first difference deciding.
\<close>

fun str_le :: "string \<Rightarrow> string \<Rightarrow> bool" where
  "str_le [] ys = True"
| "str_le (x # xs) [] = False"
| "str_le (x # xs) (y # ys) =
     (if (of_char x :: nat) < of_char y then True
      else if (of_char x :: nat) = of_char y then str_le xs ys
      else False)"

fun insert_member :: "string \<times> 'a \<Rightarrow> (string \<times> 'a) list \<Rightarrow> (string \<times> 'a) list" where
  "insert_member m [] = [m]"
| "insert_member m (x # xs) =
     (if str_le (fst m) (fst x) then m # x # xs else x # insert_member m xs)"

fun getmembers :: "(string \<times> 'a) list \<Rightarrow> (string \<times> 'a) list" where
  "getmembers [] = []"
| "getmembers (m # ms) = insert_member m (getmembers ms)"

text \<open>
  The C3 linearisation that Python computes for a new class: of the non-empty sequences,
  the first head that is in the tail of none is taken and removed from all; when no head
  qualifies the class statement raises \<^verbatim>\<open>TypeError\<close>. Classes are compared by identity.
\<close>

definition good_head :: "layer list list \<Rightarrow> layer \<Rightarrow> bool" where
  "good_head seqs c = list_all (\<lambda>t. layer_id c \<notin> set (map layer_id (tl t))) seqs"

definition drop_head :: "layer \<Rightarrow> layer list \<Rightarrow> layer list" where
  "drop_head c s =
     (case s of [] \<Rightarrow> [] | x # xs \<Rightarrow> if layer_id x = layer_id c then xs else x # xs)"

lemma length_drop_head: "length (drop_head c s) \<le> length s"
  by (cases s) (simp_all add: drop_head_def)

lemma sum_length_drop_head:
  "sum_list (map length (map (drop_head c) seqs)) \<le> sum_list (map length seqs)"
proof (induction seqs)
  case Nil
  show ?case by simp
next
  case (Cons s seqs)
  with length_drop_head [of c s] show ?case by simp
qed

lemma sum_length_drop_head_less:
  "c \<in> set (map hd seqs) \<Longrightarrow> \<forall>s \<in> set seqs. s \<noteq> [] \<Longrightarrow>
   sum_list (map length (map (drop_head c) seqs)) < sum_list (map length seqs)"
proof (induction seqs)
  case Nil
  then show ?case by simp
next
  case (Cons s seqs)
  from Cons.prems(2) obtain x xs where s: "s = x # xs" by (cases s) auto
  show ?case
  proof (cases "x = c")
    case True
    with s have "length (drop_head c s) < length s" by (simp add: drop_head_def)
    with sum_length_drop_head [of c seqs] show ?thesis by simp
  next
    case False
    with Cons.prems s have "c \<in> set (map hd seqs)" by auto
    with Cons have "sum_list (map length (map (drop_head c) seqs)) < sum_list (map length seqs)"
      by simp
    with length_drop_head [of c s] show ?thesis by simp
  qed
qed

function c3_merge :: "layer list list \<Rightarrow> layer list option" where
  "c3_merge seqs =
     (let seqs = filter (\<lambda>s. \<not> List.null s) seqs in
      if List.null seqs then Some []
      else
        (case find (good_head seqs) (map hd seqs) of
           None \<Rightarrow> None
         | Some c \<Rightarrow>
             (case c3_merge (map (drop_head c) seqs) of
                None \<Rightarrow> None
              | Some r \<Rightarrow> Some (c # r))))"
  by pat_completeness auto
termination
proof (relation "measure (\<lambda>seqs. sum_list (map length seqs))", goal_cases)
  case 1
  show ?case by simp
next
  case (2 seqs seqs' c)
  from 2 have ne: "\<forall>s \<in> set seqs'. s \<noteq> []" by auto
  from 2 obtain i where "i < length (map hd seqs')" and "map hd seqs' ! i = c"
    unfolding find_Some_iff by blast
  then have "c \<in> set (map hd seqs')" using nth_mem by blast
  from sum_length_drop_head_less [OF this ne]
  have "sum_list (map length (map (drop_head c) seqs')) < sum_list (map length seqs')" .
  also have "\<dots> \<le> sum_list (map length seqs)"
    using 2 by (simp add: sum_list_filter_le_nat)
  finally show ?case by simp
qed

declare c3_merge.simps [simp del]

text \<open>
  \<^verbatim>\<open>class inner_cls(inner_cls, cls)\<close>: a new class object with the bases \<open>inner_cls\<close> and \<open>cls\<close>,
  whose linearisation is the new class followed by the merge of the linearisations of the
  two and of the list of the two. Its body sets \<^verbatim>\<open>__name__\<close>, \<^verbatim>\<open>__qualname__\<close>, \<^verbatim>\<open>__module__\<close>
  and \<^verbatim>\<open>program_in_text\<close>; \<^verbatim>\<open>check\<close>, \<^verbatim>\<open>solution\<close>, \<^verbatim>\<open>expected_code_source\<close> and
  \<^verbatim>\<open>after_success\<close> are looked up along the new linearisation; \<^verbatim>\<open>text\<close>, \<^verbatim>\<open>program\<close>,
  \<^verbatim>\<open>hints\<close>, \<^verbatim>\<open>messages\<close> and \<^verbatim>\<open>tests\<close> have been assigned to \<open>inner_cls\<close> itself, the first
  base. The new class has no docstring.
\<close>

definition combine :: "step_cls \<Rightarrow> step_cls \<Rightarrow> error + step_cls" where
  "combine inner_cls cls =
     (case c3_merge [mro (attrs inner_cls), mro (attrs cls),
                     take 1 (mro (attrs inner_cls)) @ take 1 (mro (attrs cls))] of
        None \<Rightarrow> Inl TypeError
      | Some ls \<Rightarrow>
          Inr (StepCls
                 ((attrs inner_cls)\<lparr>
                    doc := [],
                    mro := plain_layer (concat (map layer_id (take 1 (mro (attrs inner_cls)))) @
                                        '' with '' @
                                        concat (map layer_id (take 1 (mro (attrs cls))))) # ls\<rparr>)
                 (members inner_cls @ members cls)
                 (messages inner_cls)))"

text \<open>\<^verbatim>\<open>inner_cls.tests = inner_cls.tests or cls.tests\<close>\<close>

definition inherit_tests :: "step_cls \<Rightarrow> step_cls \<Rightarrow> step_cls" where
  "inherit_tests inner_cls cls =
     StepCls
       ((attrs inner_cls)\<lparr>tests := (if tests (attrs inner_cls) \<noteq> []
                                     then tests (attrs inner_cls) else tests (attrs cls))\<rparr>)
       (members inner_cls) (messages inner_cls)"

text \<open>
  The build-time cross-check of an exercise message that fires after success:
  \<^verbatim>\<open>check_exercise(partial(inner_cls.solution, None), partial(cls.solution, None), ...)\<close>.
\<close>

definition cross_check :: "'ast env \<Rightarrow> step_cls \<Rightarrow> step_cls \<Rightarrow> error + unit" where
  "cross_check E inner_cls cls =
     (if after_success (attrs inner_cls) \<and> is_exercise (attrs inner_cls)
      then
        (case check_exercise E (FromPartial (solution (attrs inner_cls)))
                (solution (attrs cls)) cls of
           Inl e \<Rightarrow> Inl e
         | Inr v \<Rightarrow> Inr ())
      else Inr ())"

text \<open>The nested classes as \<^verbatim>\<open>clean_step_class\<close> leaves them, put back under their names.\<close>

definition update_members ::
  "(string \<times> step_cls) list \<Rightarrow> (string \<times> step_cls option) list \<Rightarrow>
   (string \<times> step_cls option) list" where
  "update_members cleaned ms =
     map (\<lambda>(nm, m). case map_of cleaned nm of None \<Rightarrow> (nm, m) | Some c \<Rightarrow> (nm, Some c)) ms"

text \<open>A measure for the recursion of \<^verbatim>\<open>clean_step_class\<close> through the nested classes.\<close>

fun members_size :: "(string \<times> step_cls option) list \<Rightarrow> nat" where
  "members_size [] = 0"
| "members_size ((nm, None) # ms) = Suc (members_size ms)"
| "members_size ((nm, Some c) # ms) = Suc (size c + members_size ms)"

lemma members_size_insert: "members_size (insert_member m ms) = members_size (m # ms)"
proof (induction ms)
  case Nil
  show ?case by simp
next
  case (Cons x xs)
  obtain n c where m: "m = (n, c)" by (cases m)
  obtain n' c' where x: "x = (n', c')" by (cases x)
  show ?case using Cons by (cases c; cases c'; simp add: m x)
qed

lemma members_size_getmembers: "members_size (getmembers ms) = members_size ms"
proof (induction ms)
  case Nil
  show ?case by simp
next
  case (Cons x xs)
  obtain n c where x: "x = (n, c)" by (cases x)
  show ?case using Cons by (cases c; simp add: members_size_insert x)
qed

lemma members_size_list:
  "members_size ms \<le> size_list (size_prod (\<lambda>x. 0) (size_option size)) ms"
proof (induction ms)
  case Nil
  show ?case by simp
next
  case (Cons x xs)
  obtain n c where x: "x = (n, c)" by (cases x)
  show ?case using Cons by (cases c; simp add: x)
qed

lemma members_size_less: "members_size (getmembers (members c)) < size c"
proof (cases c)
  case (StepCls a ms msgs)
  have "members_size ms < size (StepCls a ms msgs)"
    using members_size_list [of ms] by simp
  then show ?thesis by (simp add: StepCls members_size_getmembers)
qed

lemma size_inherit_tests: "size (inherit_tests inner_cls cls) = size inner_cls"
  by (cases inner_cls) (simp add: inherit_tests_def)

text \<open>
  \<^verbatim>\<open>clean_step_class\<close>, and its loop over \<^verbatim>\<open>inspect.getmembers(cls)\<close>. In the loop \<open>cls\<close> is
  the class with \<^verbatim>\<open>cls.solution\<close> already assigned and its other attributes as declared. The
  loop returns the nested classes as it leaves them and the list \<^verbatim>\<open>messages\<close>; the combined
  class is appended before it is normalised, and is the same object afterwards.
\<close>

function clean_step_class :: "'ast env \<Rightarrow> bool \<Rightarrow> step_cls \<Rightarrow> error + step_cls"
  and clean_inner_classes ::
    "'ast env \<Rightarrow> step_cls \<Rightarrow> (string \<times> step_cls option) list \<Rightarrow>
     error + ((string \<times> step_cls) list \<times> step_cls list)"
where
  "clean_step_class E clean_inner cls =
     (case clean_attrs E (attrs cls) of
        Inl e \<Rightarrow> Inl e
      | Inr a \<Rightarrow>
          if clean_inner
          then
            (case clean_inner_classes E
                    (StepCls ((attrs cls)\<lparr>mro := mro a\<rparr>) (members cls) (messages cls))
                    (getmembers (members cls)) of
               Inl e \<Rightarrow> Inl e
             | Inr (cleaned, msgs) \<Rightarrow>
                 Inr (StepCls a (update_members cleaned (members cls)) msgs))
          else Inr (StepCls a (members cls) []))"
| "clean_inner_classes E cls [] = Inr ([], [])"
| "clean_inner_classes E cls ((nm, None) # rest) = clean_inner_classes E cls rest"
| "clean_inner_classes E cls ((nm, Some inner_cls) # rest) =
     (if is_message (attrs inner_cls)
      then
        (case clean_step_class E True (inherit_tests inner_cls cls) of
           Inl e \<Rightarrow> Inl e
         | Inr inner' \<Rightarrow>
        (case combine inner' cls of
           Inl e \<Rightarrow> Inl e
         | Inr combined \<Rightarrow>
        (case cross_check E combined cls of
           Inl e \<Rightarrow> Inl e
         | Inr u \<Rightarrow>
        (case clean_step_class E False combined of
           Inl e \<Rightarrow> Inl e
         | Inr message_cls \<Rightarrow>
        (case clean_inner_classes E cls rest of
           Inl e \<Rightarrow> Inl e
         | Inr (cleaned, msgs) \<Rightarrow> Inr ((nm, inner') # cleaned, message_cls # msgs))))))
      else
        (case clean_step_class E False inner_cls of
           Inl e \<Rightarrow> Inl e
         | Inr inner' \<Rightarrow>
        (case clean_inner_classes E cls rest of
           Inl e \<Rightarrow> Inl e
         | Inr (cleaned, msgs) \<Rightarrow> Inr ((nm, inner') # cleaned, msgs))))"
  by pat_completeness auto
termination
  apply (relation "measure (\<lambda>x. case x of
            Inl (E, ci, c) \<Rightarrow> (if ci then 2 * size c else 0)
          | Inr (E, c, ms) \<Rightarrow> 2 * members_size ms + 1)")
       apply (simp_all add: size_inherit_tests)
  subgoal for E clean_inner cls b
    using members_size_less [of cls] by linarith
  done

declare clean_step_class.simps [simp del]



section \<open>A small environment to run the engine on\<close>

text \<open>
  Stand-ins for the collaborators, for running the definitions on concrete classes and
  submissions: a text parses when its parentheses are balanced, a tree is the text without
  blanks, trees are alike when equal, every test passes, no type can be generated,
  \<^verbatim>\<open>str.lower\<close> is the one of ASCII text (the capitals \<open>A\<close> to \<open>Z\<close>; the texts used are ASCII),
  a property of the metaclass gives a value that cannot be called, no other attribute is
  found, and the text functions leave the text as it is.
\<close>

fun parens_balanced :: "string \<Rightarrow> nat \<Rightarrow> bool" where
  "parens_balanced [] depth = (depth = 0)"
| "parens_balanced (c # cs) depth =
     (if c = CHR ''('' then parens_balanced cs (Suc depth)
      else if c = CHR '')'' then (depth \<noteq> 0 \<and> parens_balanced cs (depth - 1))
      else parens_balanced cs depth)"

definition ascii_lower_char :: "char \<Rightarrow> char" where
  "ascii_lower_char c =
     (if (65::nat) \<le> of_char c \<and> of_char c \<le> (90::nat)
      then char_of (of_char c + (32::nat)) else c)"

definition ascii_lower :: "string \<Rightarrow> string" where
  "ascii_lower s = map ascii_lower_char s"

definition toy_env :: "string env" where
  "toy_env = \<lparr>
     ast_parse = (\<lambda>s. if parens_balanced s 0 then Inr (filter (\<lambda>c. c \<noteq> CHR '' '') s)
                       else Inl SyntaxError),
     is_ast_like = (\<lambda>t tt. t = tt),
     check_exercise = (\<lambda>c sol cls. Inr (PyBool True)),
     generate_for_type = (\<lambda>t. Inl TypeNotSupported),
     str_lower = ascii_lower,
     attribute_fault = (\<lambda>nm. if nm \<in> set PageMeta_properties then TypeError
                              else AttributeError),
     no_weird_whitespace = (\<lambda>s. True),
     function_program = (\<lambda>f inputs. Inr (''def '' @ f_name f)),
     markdown = (\<lambda>s. s),
     dedent = (\<lambda>s. s),
     strip = (\<lambda>s. s),
     splitlines = (\<lambda>s. [s]),
     indent = (\<lambda>s prefix. prefix @ s),
     replace = (\<lambda>s old new. s),
     re_sub_program_indented = (\<lambda>s indented. s)\<rparr>"

text \<open>
  \<^verbatim>\<open>class Step(VerbatimStep)\<close> with the program \<^verbatim>\<open>print(Word)\<close>, and a submission from the
  editor.
\<close>

definition toy_attrs :: step_attrs where
  "toy_attrs = \<lparr>name = ''Step'', step_text = ''text'', doc = [],
     program = ProgramText ''print(Word)'', program_in_text = False, hints = HintsList [],
     tests = [], mro = [plain_layer ''Toy.Step'', VerbatimStep_layer, Step_layer]\<rparr>"

definition toy_sub :: submission where
  "toy_sub = \<lparr>input = ''print(word)'', result = PyNone, code_source = ''editor'',
              console_locals = Map.empty\<rparr>"

text \<open>The nested message classes among the members of a class, in the order of the list.\<close>

fun message_members :: "(string \<times> step_cls option) list \<Rightarrow> step_cls list" where
  "message_members [] = []"
| "message_members ((nm, None) # ms) = message_members ms"
| "message_members ((nm, Some c) # ms) =
     (if is_message (attrs c) then c # message_members ms else message_members ms)"

text \<open>
  The two conditions on a message class, for the outcome of the raw check: its
  \<^verbatim>\<open>after_success\<close> equals the outcome and its own check, on the same submission, returns a
  true value. It declines when the flag differs, or its check returns a false value. It
  faults when the flag is equal and its check (or its instantiation) raises.
\<close>

definition message_passes :: "'ast env \<Rightarrow> submission \<Rightarrow> pyval \<Rightarrow> step_cls \<Rightarrow> bool" where
  "message_passes E sub outcome m =
     (outcome = PyBool (after_success (attrs m)) \<and>
      (case snd (check_message E m sub) of Inr v \<Rightarrow> truthy v | Inl e \<Rightarrow> False))"

definition message_declines :: "'ast env \<Rightarrow> submission \<Rightarrow> pyval \<Rightarrow> step_cls \<Rightarrow> bool" where
  "message_declines E sub outcome m =
     (if outcome = PyBool (after_success (attrs m))
      then (case snd (check_message E m sub) of Inr v \<Rightarrow> \<not> truthy v | Inl e \<Rightarrow> False)
      else True)"

definition message_faults ::
  "'ast env \<Rightarrow> submission \<Rightarrow> pyval \<Rightarrow> step_cls \<Rightarrow> error \<Rightarrow> bool" where
  "message_faults E sub outcome m e =
     (outcome = PyBool (after_success (attrs m)) \<and> snd (check_message E m sub) = Inl e)"

text \<open>
  The dispatch as the specification words it, with the raw result always reduced to a bool
  before the message classes are consulted; for comparison with \<open>check_with_messages\<close>.
\<close>

definition check_with_messages_bool_outcome ::
  "'ast env \<Rightarrow> step_cls \<Rightarrow> submission \<Rightarrow> pyval comp" where
  "check_with_messages_bool_outcome E cls sub =
     (if expected_code_source (attrs cls) \<noteq> None \<and>
         expected_code_source (attrs cls) \<noteq> Some (code_source sub)
      then ([], Inr (PyBool False))
      else
        (case check E cls sub of
           (t, Inl e) \<Rightarrow> (CallCheck (name (attrs cls)) # t, Inl e)
         | (t, Inr r) \<Rightarrow>
             (case scan_messages E (messages cls) sub (PyBool (truthy r)) of
                (t', x) \<Rightarrow> (CallCheck (name (attrs cls)) # t @ t', x))))"

text \<open>
  Concrete classes: \<^verbatim>\<open>class Zed(MessageStep)\<close> and \<^verbatim>\<open>class Abe(MessageStep)\<close>, each with a check
  that always passes; a step that declares \<open>Zed\<close> before \<open>Abe\<close>; an \<^verbatim>\<open>ExerciseStep\<close> whose
  solution names the function \<open>double\<close>, with a message class that fires after success; a
  step that expects the shell and an exercise that expects the editor.
\<close>

definition always_true :: "submission \<Rightarrow> error + pyval" where
  "always_true sub = Inr (PyBool True)"

definition always_false :: "submission \<Rightarrow> error + pyval" where
  "always_false sub = Inr (PyBool False)"

definition zed_cls :: step_cls where
  "zed_cls = StepCls (toy_attrs\<lparr>name := ''Zed'', step_text := ''zed hint'',
       program := ProgramText ''p'',
       mro := [(plain_layer ''Toy.Parent.Zed'')\<lparr>layer_check := Defined (OtherCheck always_true)\<rparr>,
               MessageStep_layer, Step_layer]\<rparr>) [] []"

definition abe_cls :: step_cls where
  "abe_cls = StepCls (toy_attrs\<lparr>name := ''Abe'', step_text := ''abe hint'',
       program := ProgramText ''p'',
       mro := [(plain_layer ''Toy.Parent.Abe'')\<lparr>layer_check := Defined (OtherCheck always_true)\<rparr>,
               MessageStep_layer, Step_layer]\<rparr>) [] []"

definition parent_cls :: step_cls where
  "parent_cls = StepCls toy_attrs [(''Zed'', Some zed_cls), (''Abe'', Some abe_cls)] []"

definition built_cls :: step_cls where
  "built_cls = (case clean_step_class toy_env True parent_cls of
                  Inr c \<Rightarrow> c | Inl e \<Rightarrow> parent_cls)"

definition double_solution :: func where
  "double_solution = Func ''double'' [(''_'', None), (''x'', None)] None None"

definition exercise_attrs :: step_attrs where
  "exercise_attrs = toy_attrs\<lparr>name := ''Exercise'',
     program := ProgramText ''def double(x): return x * 2'',
     tests := [(InputsDict [(''x'', PyInt 3)], PyInt 6)],
     mro := [(plain_layer ''Toy.Exercise'')\<lparr>layer_solution := Defined double_solution\<rparr>,
             ExerciseStep_layer, Step_layer]\<rparr>"

definition hint_cls :: step_cls where
  "hint_cls = StepCls (toy_attrs\<lparr>name := ''Hint'', step_text := ''hint'',
       mro := [(plain_layer ''Toy.Exercise.Hint'')\<lparr>
                  layer_check := Defined (OtherCheck always_true),
                  layer_after_success := Some True\<rparr>,
               MessageStep_layer, Step_layer]\<rparr>) [] []"

definition exercise_cls :: step_cls where
  "exercise_cls = StepCls exercise_attrs [] [hint_cls]"

definition shell_cls :: step_cls where
  "shell_cls = StepCls (toy_attrs\<lparr>name := ''Shell'',
       mro := [(plain_layer ''Toy.Shell'')\<lparr>layer_expected_code_source := Some (Some ''shell'')\<rparr>,
               VerbatimStep_layer, Step_layer]\<rparr>) [] [zed_cls]"

definition editor_exercise_cls :: step_cls where
  "editor_exercise_cls = StepCls (exercise_attrs\<lparr>
       mro := [(plain_layer ''Toy.Exercise'')\<lparr>
                  layer_solution := Defined double_solution,
                  layer_expected_code_source := Some (Some ''editor'')\<rparr>,
               ExerciseStep_layer, Step_layer]\<rparr>) [] [hint_cls]"

text \<open>
  An exercise with its own check, always false, that nests \<^verbatim>\<open>class Note(ExerciseStep,
  MessageStep)\<close> with a solution of its own and no check of its own; and the message class
  that normalisation builds from the two.
\<close>

definition note_cls :: step_cls where
  "note_cls = StepCls (toy_attrs\<lparr>name := ''Note'', step_text := ''note'',
       program := ProgramText [],
       mro := [(plain_layer ''Toy.Strict.Note'')\<lparr>layer_solution := Defined double_solution\<rparr>,
               ExerciseStep_layer, MessageStep_layer, Step_layer]\<rparr>) [] []"

definition strict_cls :: step_cls where
  "strict_cls = StepCls (exercise_attrs\<lparr>name := ''Strict'', program := ProgramText [],
       mro := [(plain_layer ''Toy.Strict'')\<lparr>
                  layer_check := Defined (OtherCheck always_false),
                  layer_solution := Defined double_solution\<rparr>,
               ExerciseStep_layer, Step_layer]\<rparr>) [(''Note'', Some note_cls)] []"

definition built_strict_cls :: step_cls where
  "built_strict_cls = (case clean_step_class toy_env True strict_cls of
                         Inr c \<Rightarrow> c | Inl e \<Rightarrow> strict_cls)"









definition wrong_double :: func where
  "wrong_double = Func ''double'' [(''y'', None)] None None"

definition right_double :: func where
  "right_double = Func ''double'' [(''x'', None)] None None"

definition typed_solution :: func where
  "typed_solution =
     Func ''solution'' [(''_'', None), (''x'', Some ''int''), (''y'', None)] None None"

definition int_env :: "string env" where
  "int_env = toy_env\<lparr>generate_for_type :=
     (\<lambda>t. if t = ''int'' then Inr (PyInt 1) else Inl TypeNotSupported)\<rparr>"

definition typed_cls :: step_cls where
  "typed_cls = StepCls (exercise_attrs\<lparr>
       mro := [(plain_layer ''Toy.Typed'')\<lparr>layer_solution := Defined typed_solution\<rparr>,
               ExerciseStep_layer, Step_layer]\<rparr>) [] []"



text \<open>
  A stand-in for the parser that, as \<^verbatim>\<open>ast.parse\<close> does, rejects an assignment to the keyword
  \<^verbatim>\<open>if\<close> and accepts one to the names \<^verbatim>\<open>If\<close> and \<^verbatim>\<open>IF\<close>; a page whose step has the program
  \<^verbatim>\<open>IF = 3\<close>; and a stand-in that raises \<^verbatim>\<open>ValueError\<close> for a text with a null byte, as
  \<^verbatim>\<open>ast.parse\<close> does (up to Python 3.11).
\<close>

definition keyword_env :: "string env" where
  "keyword_env = toy_env\<lparr>ast_parse :=
     (\<lambda>s. if starts_with s ''if ='' then Inl SyntaxError else ast_parse toy_env s)\<rparr>"


definition keyword_page :: page where
  "keyword_page = \<lparr>page_dict =
       [(''Assign'', Some (StepCls (toy_attrs\<lparr>program := ProgramText ''IF = 3''\<rparr>) [] []))],
     final_text = Some ''done'', step_names = [''Assign'', ''final_text''],
     step_texts = [''text'', ''done'']\<rparr>"

section \<open>Properties of the dispatch\<close>




text \<open>
  C7. When the class declares an expected origin and the submission comes from another
  one, \<^verbatim>\<open>check_with_messages\<close> returns \<^verbatim>\<open>False\<close> and the trace of calls is empty: neither
  the check of the class nor the check of any of its message classes is called.
\<close>

theorem origin_mismatch_fails:
  assumes "expected_code_source (attrs cls) = Some origin" and "origin \<noteq> code_source sub"
  shows "check_with_messages E cls sub = ([], Inr (PyBool False))"
  using assms by (simp add: check_with_messages_def)

theorem origin_mismatch_fails_witness:
  "expected_code_source (attrs shell_cls) = Some ''shell'' \<and>
   code_source toy_sub = ''editor'' \<and>
   map (name \<circ> attrs) (messages shell_cls) = [''Zed''] \<and>
   message_passes toy_env toy_sub (PyBool False) zed_cls \<and>
   check_with_messages toy_env shell_cls toy_sub = ([], Inr (PyBool False))"
proof -
  have a: "expected_code_source (attrs shell_cls) = Some ''shell''" by code_simp
  have b: "''shell'' \<noteq> code_source toy_sub" by code_simp
  have c: "code_source toy_sub = ''editor''" by code_simp
  have d: "map (name \<circ> attrs) (messages shell_cls) = [''Zed'']" by code_simp
  have e: "message_passes toy_env toy_sub (PyBool False) zed_cls" by code_simp
  from origin_mismatch_fails [OF a b, of toy_env] a c d e show ?thesis by simp
qed

text \<open>
  C9. For a submission from the shell \<^verbatim>\<open>ExerciseStep.check\<close> returns \<^verbatim>\<open>False\<close> with an
  empty trace: before the look-up of the function, the signatures and the tests, and
  whatever the class declares as expected origin (the class is arbitrary).
\<close>

theorem exercise_shell_false:
  assumes "code_source sub = ''shell''"
  shows "ExerciseStep_check E cls sub = ([], Inr (PyBool False))"
  using assms by (simp add: ExerciseStep_check_def)

theorem exercise_shell_false_witness:
  "check_method (attrs editor_exercise_cls) = Some ExerciseCheck \<and>
   expected_code_source (attrs editor_exercise_cls) = Some ''editor'' \<and>
   code_source (toy_sub\<lparr>code_source := ''shell''\<rparr>) = ''shell'' \<and>
   ExerciseStep_check toy_env editor_exercise_cls (toy_sub\<lparr>code_source := ''shell''\<rparr>)
     = ([], Inr (PyBool False))"
proof -
  have a: "check_method (attrs editor_exercise_cls) = Some ExerciseCheck"
    by (simp add: editor_exercise_cls_def check_method_def plain_layer_def
          ExerciseStep_layer_def)
  have b: "expected_code_source (attrs editor_exercise_cls) = Some ''editor''" by code_simp
  have c: "code_source (toy_sub\<lparr>code_source := ''shell''\<rparr>) = ''shell''" by simp
  from exercise_shell_false [OF c, of toy_env editor_exercise_cls] a b c
  show ?thesis by simp
qed




lemma scan_messages_dict:
  "scan_messages E ms sub (PyDict kvs) = ([], Inr (PyDict kvs))"
  by (induction ms) simp_all

lemma scan_messages_first:
  assumes "\<forall>p \<in> set pre. message_declines E sub res p"
    and "message_passes E sub res m"
  shows "snd (scan_messages E (pre @ m # post) sub res) = Inr (message m)"
  using assms
proof (induction pre)
  case Nil
  then show ?case by (auto simp: message_passes_def split: prod.splits sum.splits)
next
  case (Cons p pre)
  then have IH: "snd (scan_messages E (pre @ m # post) sub res) = Inr (message m)" by simp
  from Cons.prems have d: "message_declines E sub res p" by simp
  show ?case using IH d
    by (auto simp: message_declines_def split: prod.splits sum.splits if_splits)
qed

lemma scan_messages_none:
  assumes "\<forall>p \<in> set ms. message_declines E sub res p"
  shows "snd (scan_messages E ms sub res) = Inr res"
  using assms
proof (induction ms)
  case Nil
  then show ?case by simp
next
  case (Cons p ps)
  then have IH: "snd (scan_messages E ps sub res) = Inr res" by simp
  from Cons.prems have d: "message_declines E sub res p" by simp
  show ?case using IH d
    by (auto simp: message_declines_def split: prod.splits sum.splits if_splits)
qed

lemma scan_messages_fault:
  assumes "\<forall>p \<in> set pre. message_declines E sub res p"
    and "message_faults E sub res m e"
  shows "snd (scan_messages E (pre @ m # post) sub res) = Inl e"
  using assms
proof (induction pre)
  case Nil
  then show ?case by (auto simp: message_faults_def split: prod.splits sum.splits)
next
  case (Cons p pre)
  then have IH: "snd (scan_messages E (pre @ m # post) sub res) = Inl e" by simp
  from Cons.prems have d: "message_declines E sub res p" by simp
  show ?case using IH d
    by (auto simp: message_declines_def split: prod.splits sum.splits if_splits)
qed

lemma check_with_messages_scan:
  assumes "expected_code_source (attrs cls) = None \<or>
           expected_code_source (attrs cls) = Some (code_source sub)"
    and "snd (check E cls sub) = Inr r"
  shows "snd (check_with_messages E cls sub)
         = snd (scan_messages E (messages cls) sub (normalize_result r))"
  using assms
  by (cases "check E cls sub") (auto simp: check_with_messages_def split: prod.splits)

text \<open>
  C2, as the code has it. When the origin is admitted and the check returns \<open>r\<close>: a result
  that is no dict is reduced to \<open>bool(r)\<close> before the message classes are scanned; a dict is
  not reduced, equals the \<^verbatim>\<open>after_success\<close> of no message class, so that no message check is
  called, and is returned as it is.
\<close>

theorem dict_result_is_kept:
  assumes "expected_code_source (attrs cls) = None \<or>
           expected_code_source (attrs cls) = Some (code_source sub)"
    and "check E cls sub = (t, Inr r)"
  shows "(\<not> is_dict r \<longrightarrow>
            check_with_messages E cls sub =
              (case scan_messages E (messages cls) sub (PyBool (truthy r)) of
                 (t', x) \<Rightarrow> (CallCheck (name (attrs cls)) # t @ t', x))) \<and>
         (is_dict r \<longrightarrow>
            check_with_messages E cls sub = (CallCheck (name (attrs cls)) # t, Inr r))"
proof (intro conjI impI)
  assume "\<not> is_dict r"
  with assms show "check_with_messages E cls sub =
              (case scan_messages E (messages cls) sub (PyBool (truthy r)) of
                 (t', x) \<Rightarrow> (CallCheck (name (attrs cls)) # t @ t', x))"
    by (auto simp: check_with_messages_def normalize_result_def)
next
  assume "is_dict r"
  then obtain kvs where "r = PyDict kvs" by (cases r) simp_all
  with assms show "check_with_messages E cls sub = (CallCheck (name (attrs cls)) # t, Inr r)"
    by (auto simp: check_with_messages_def normalize_result_def scan_messages_dict)
qed

theorem dict_result_is_kept_witness:
  "check toy_env exercise_cls toy_sub =
     ([CallLocals ''double''],
      Inr (dict_message (''You must define a function '' @ backtick @ ''double'' @ backtick))) \<and>
   check_with_messages toy_env exercise_cls toy_sub =
     ([CallCheck ''Exercise'', CallLocals ''double''],
      Inr (dict_message (''You must define a function '' @ backtick @ ''double'' @ backtick)))"
proof -
  have a: "expected_code_source (attrs exercise_cls) = None \<or>
           expected_code_source (attrs exercise_cls) = Some (code_source toy_sub)"
    by code_simp
  have b: "check toy_env exercise_cls toy_sub =
     ([CallLocals ''double''],
      Inr (dict_message (''You must define a function '' @ backtick @ ''double'' @ backtick)))"
    by code_simp
  have c: "name (attrs exercise_cls) = ''Exercise''" by code_simp
  from dict_result_is_kept [OF a b] b c show ?thesis
    by (simp add: dict_message_def)
qed

text \<open>
  C2 as stated fails: the exercise's check returns the diagnostic dict for a missing
  function, a true value; its message class \<open>Hint\<close> fires after success and its own check
  passes, so with the result reduced to a bool the verdict would be the hint; the code
  returns the diagnostic and never calls the check of \<open>Hint\<close>.
\<close>

theorem dict_result_is_kept_counterexample:
  "snd (check toy_env exercise_cls toy_sub)
     = Inr (dict_message (''You must define a function '' @ backtick @ ''double'' @ backtick)) \<and>
   truthy (dict_message (''You must define a function '' @ backtick @ ''double'' @ backtick)) \<and>
   after_success (attrs hint_cls) \<and>
   snd (check_message toy_env hint_cls toy_sub) = Inr (PyBool True) \<and>
   snd (check_with_messages_bool_outcome toy_env exercise_cls toy_sub)
     = Inr (dict_message ''hint'') \<and>
   check_with_messages toy_env exercise_cls toy_sub
     = ([CallCheck ''Exercise'', CallLocals ''double''],
        Inr (dict_message (''You must define a function '' @ backtick @ ''double'' @ backtick)))"
  by code_simp

section \<open>Properties of the normalisation\<close>

lemma str_le_total: "str_le a b \<or> str_le b a"
  by (induction a b rule: str_le.induct) (auto simp: not_less)

lemma str_le_Cons_total: "\<not> str_le a b \<Longrightarrow> str_le b a"
  using str_le_total by blast

lemma str_le_trans: "str_le a b \<Longrightarrow> str_le b c \<Longrightarrow> str_le a c"
proof (induction a b arbitrary: c rule: str_le.induct)
  case (1 ys)
  then show ?case by simp
next
  case (2 x xs)
  then show ?case by simp
next
  case (3 x xs y ys)
  then show ?case
    by (cases c) (auto split: if_splits)
qed

lemma set_insert_member: "set (insert_member m xs) = insert m (set xs)"
  by (induction xs) auto

lemma sorted_insert_member:
  "sorted_wrt (\<lambda>a b. str_le (fst a) (fst b)) xs \<Longrightarrow>
   sorted_wrt (\<lambda>a b. str_le (fst a) (fst b)) (insert_member m xs)"
proof (induction xs)
  case Nil
  then show ?case by simp
next
  case (Cons x xs)
  show ?case
  proof (cases "str_le (fst m) (fst x)")
    case True
    with Cons.prems show ?thesis
      by (auto intro: str_le_trans)
  next
    case False
    then have "str_le (fst x) (fst m)" by (rule str_le_Cons_total)
    with Cons False show ?thesis
      by (auto simp: set_insert_member)
  qed
qed

lemma sorted_getmembers: "sorted_wrt (\<lambda>a b. str_le (fst a) (fst b)) (getmembers ms)"
  by (induction ms) (simp_all add: sorted_insert_member)

lemma set_getmembers: "set (getmembers ms) = set ms"
  by (induction ms) (simp_all add: set_insert_member)

lemma clean_attrs_name: "clean_attrs E a = Inr a' \<Longrightarrow> name a' = name a"
  unfolding clean_attrs_def Let_def
  by (auto split: if_splits sum.splits option.splits prod.splits list.splits)

lemma clean_step_class_name:
  "clean_step_class E ci c = Inr c' \<Longrightarrow> name (attrs c') = name (attrs c)"
  by (subst (asm) clean_step_class.simps)
     (auto split: sum.splits if_splits prod.splits dest: clean_attrs_name)

lemma clean_inner_classes_names:
  "clean_inner_classes E cls ms = Inr (cleaned, msgs) \<Longrightarrow>
   map (name \<circ> attrs) msgs = map (name \<circ> attrs) (message_members ms)"
proof (induction ms arbitrary: cleaned msgs)
  case Nil
  then show ?case by simp
next
  case (Cons x xs)
  obtain nm m where x: "x = (nm, m)" by (cases x)
  show ?case
  proof (cases m)
    case None
    with Cons x show ?thesis by simp
  next
    case (Some inner_cls)
    show ?thesis
    proof (cases "is_message (attrs inner_cls)")
      case True
      from Cons.prems x Some True obtain inner' combined message_cls cleaned' msgs' where
        i: "clean_step_class E True (inherit_tests inner_cls cls) = Inr inner'" and
        c: "combine inner' cls = Inr combined" and
        m: "clean_step_class E False combined = Inr message_cls" and
        r: "clean_inner_classes E cls xs = Inr (cleaned', msgs')" and
        e: "msgs = message_cls # msgs'"
        by (auto split: sum.splits prod.splits)
      from c have "name (attrs combined) = name (attrs inner')"
        by (auto simp: combine_def split: option.splits)
      then have "name (attrs message_cls) = name (attrs inner_cls)"
        using clean_step_class_name [OF i] clean_step_class_name [OF m]
        by (simp add: inherit_tests_def)
      with Cons.IH [OF r] x Some True e show ?thesis by simp
    next
      case False
      from Cons.prems x Some False obtain cleaned' where
        r: "clean_inner_classes E cls xs = Inr (cleaned', msgs)"
        by (auto split: sum.splits prod.splits)
      with Cons.IH [OF r] x Some False show ?thesis by simp
    qed
  qed
qed

lemma clean_step_class_messages:
  "clean_step_class E True decl = Inr cls \<Longrightarrow>
   map (name \<circ> attrs) (messages cls) =
   map (name \<circ> attrs) (message_members (getmembers (members decl)))"
  by (subst (asm) clean_step_class.simps)
     (auto split: sum.splits prod.splits dest: clean_inner_classes_names)

text \<open>
  The linearisation of a built message class, at an instance: \<^verbatim>\<open>Note(ExerciseStep,
  MessageStep)\<close> nested in \<^verbatim>\<open>Strict(ExerciseStep)\<close> gives the new class, \<open>Note\<close>, \<open>Strict\<close>,
  \<^verbatim>\<open>ExerciseStep\<close>, \<^verbatim>\<open>MessageStep\<close>, \<^verbatim>\<open>Step\<close>; the check of the built class is the one of
  \<open>Strict\<close>, always false, not \<^verbatim>\<open>ExerciseStep.check\<close>.
\<close>

lemma built_message_class_resolves_parent_first:
  "map (name \<circ> attrs) (messages built_strict_cls) = [''Note''] \<and>
   map layer_id (mro (attrs (messages built_strict_cls ! 0))) =
     [''Toy.Strict.Note with Toy.Strict'', ''Toy.Strict.Note'', ''Toy.Strict'',
      ''ExerciseStep'', ''MessageStep'', ''Step''] \<and>
   check_message toy_env (messages built_strict_cls ! 0)
       (toy_sub\<lparr>console_locals := [''double'' \<mapsto> PyFunction right_double]\<rparr>)
     = ([CallCheck ''Note''], Inr (PyBool False))"
  by code_simp

text \<open>
  C1, as the code has it. For a class that \<^verbatim>\<open>clean_step_class\<close> has normalised, the list
  \<^verbatim>\<open>messages\<close> holds the nested message classes in the order of \<^verbatim>\<open>inspect.getmembers\<close>: the
  members of the class sorted by name, whatever the order of the class body. When the
  origin is admitted and the check returns \<open>r\<close>, the scan stops at the first class of that
  list that does not decline, all before it declining (another \<^verbatim>\<open>after_success\<close> than the
  outcome, or a check of the message class on the same submission that returns a false
  value): if it passes (its check returns a true value) its message is the verdict, if
  its check raises a fault that fault is raised. When all decline, the verdict is the
  outcome of the raw check.
\<close>

theorem messages_scanned_in_name_order:
  assumes build: "clean_step_class E True decl = Inr cls"
    and origin: "expected_code_source (attrs cls) = None \<or>
                 expected_code_source (attrs cls) = Some (code_source sub)"
    and raw: "snd (check E cls sub) = Inr r"
  shows "map (name \<circ> attrs) (messages cls) =
           map (name \<circ> attrs) (message_members (getmembers (members decl))) \<and>
         sorted_wrt (\<lambda>a b. str_le (fst a) (fst b)) (getmembers (members decl)) \<and>
         set (getmembers (members decl)) = set (members decl) \<and>
         (\<forall>i < length (messages cls).
            (\<forall>j < i. message_declines E sub (normalize_result r) (messages cls ! j)) \<and>
            message_passes E sub (normalize_result r) (messages cls ! i) \<longrightarrow>
            snd (check_with_messages E cls sub) = Inr (message (messages cls ! i))) \<and>
         (\<forall>i < length (messages cls). \<forall>e.
            (\<forall>j < i. message_declines E sub (normalize_result r) (messages cls ! j)) \<and>
            message_faults E sub (normalize_result r) (messages cls ! i) e \<longrightarrow>
            snd (check_with_messages E cls sub) = Inl e) \<and>
         ((\<forall>m \<in> set (messages cls). message_declines E sub (normalize_result r) m) \<longrightarrow>
            snd (check_with_messages E cls sub) = Inr (normalize_result r))"
proof (intro conjI allI impI)
  show "map (name \<circ> attrs) (messages cls) =
           map (name \<circ> attrs) (message_members (getmembers (members decl)))"
    using build by (rule clean_step_class_messages)
  show "sorted_wrt (\<lambda>a b. str_le (fst a) (fst b)) (getmembers (members decl))"
    by (rule sorted_getmembers)
  show "set (getmembers (members decl)) = set (members decl)"
    by (rule set_getmembers)
next
  fix i
  assume i: "i < length (messages cls)"
    and h: "(\<forall>j < i. message_declines E sub (normalize_result r) (messages cls ! j)) \<and>
            message_passes E sub (normalize_result r) (messages cls ! i)"
  from i have split: "messages cls = take i (messages cls) @ (messages cls ! i) # drop (Suc i) (messages cls)"
    by (rule id_take_nth_drop)
  have pre: "\<forall>p \<in> set (take i (messages cls)). message_declines E sub (normalize_result r) p"
  proof
    fix p
    assume "p \<in> set (take i (messages cls))"
    then obtain j where "j < length (take i (messages cls))" and "take i (messages cls) ! j = p"
      by (auto simp: in_set_conv_nth)
    with i h show "message_declines E sub (normalize_result r) p" by auto
  qed
  have "snd (scan_messages E (take i (messages cls) @ (messages cls ! i) # drop (Suc i) (messages cls))
               sub (normalize_result r)) = Inr (message (messages cls ! i))"
    using pre h by (intro scan_messages_first) auto
  with split check_with_messages_scan [OF origin raw]
  show "snd (check_with_messages E cls sub) = Inr (message (messages cls ! i))"
    by simp
next
  fix i e
  assume i: "i < length (messages cls)"
    and h: "(\<forall>j < i. message_declines E sub (normalize_result r) (messages cls ! j)) \<and>
            message_faults E sub (normalize_result r) (messages cls ! i) e"
  from i have split: "messages cls = take i (messages cls) @ (messages cls ! i) # drop (Suc i) (messages cls)"
    by (rule id_take_nth_drop)
  have pre: "\<forall>p \<in> set (take i (messages cls)). message_declines E sub (normalize_result r) p"
  proof
    fix p
    assume "p \<in> set (take i (messages cls))"
    then obtain j where "j < length (take i (messages cls))" and "take i (messages cls) ! j = p"
      by (auto simp: in_set_conv_nth)
    with i h show "message_declines E sub (normalize_result r) p" by auto
  qed
  have "snd (scan_messages E (take i (messages cls) @ (messages cls ! i) # drop (Suc i) (messages cls))
               sub (normalize_result r)) = Inl e"
    using pre h by (intro scan_messages_fault) auto
  with split check_with_messages_scan [OF origin raw]
  show "snd (check_with_messages E cls sub) = Inl e"
    by simp
next
  assume "\<forall>m \<in> set (messages cls). message_declines E sub (normalize_result r) m"
  from scan_messages_none [OF this] check_with_messages_scan [OF origin raw]
  show "snd (check_with_messages E cls sub) = Inr (normalize_result r)"
    by simp
qed


theorem messages_scanned_in_name_order_witness:
  "clean_step_class toy_env True parent_cls = Inr built_cls \<and>
   snd (check toy_env built_cls (toy_sub\<lparr>input := ''print(other)''\<rparr>)) = Inr PyNone \<and>
   map (name \<circ> attrs) (messages built_cls) = [''Abe'', ''Zed''] \<and>
   snd (check_with_messages toy_env built_cls (toy_sub\<lparr>input := ''print(other)''\<rparr>))
     = Inr (message (messages built_cls ! 0))"
proof -
  have "case clean_step_class toy_env True parent_cls of Inl e \<Rightarrow> False | Inr c \<Rightarrow> True"
    by code_simp
  then have build: "clean_step_class toy_env True parent_cls = Inr built_cls"
    by (auto simp: built_cls_def split: sum.splits)
  have origin: "expected_code_source (attrs built_cls) = None \<or>
      expected_code_source (attrs built_cls)
        = Some (code_source (toy_sub\<lparr>input := ''print(other)''\<rparr>))"
    by code_simp
  have raw: "snd (check toy_env built_cls (toy_sub\<lparr>input := ''print(other)''\<rparr>)) = Inr PyNone"
    by code_simp
  have len: "0 < length (messages built_cls)"
    by code_simp
  have pass: "message_passes toy_env (toy_sub\<lparr>input := ''print(other)''\<rparr>)
                (normalize_result PyNone) (messages built_cls ! 0)"
    by code_simp
  have names: "map (name \<circ> attrs) (message_members (getmembers (members parent_cls)))
                 = [''Abe'', ''Zed'']"
    by code_simp
  from messages_scanned_in_name_order [OF build origin raw] len pass names build raw
  show ?thesis by auto
qed

text \<open>
  C1 as stated fails: the step declares \<open>Zed\<close> before \<open>Abe\<close>; both fire on failure and both
  pass their own check on a failing submission; the verdict is the message of \<open>Abe\<close>, the
  first by name, not the message of \<open>Zed\<close>, the first declared.
\<close>

theorem messages_scanned_in_name_order_counterexample:
  "(case clean_step_class toy_env True parent_cls of Inl e \<Rightarrow> False | Inr c \<Rightarrow> True) \<and>
   map (name \<circ> attrs) (message_members (members parent_cls)) = [''Zed'', ''Abe''] \<and>
   map (name \<circ> attrs) (messages built_cls) = [''Abe'', ''Zed''] \<and>
   snd (check toy_env built_cls (toy_sub\<lparr>input := ''print(other)''\<rparr>)) = Inr PyNone \<and>
   normalize_result PyNone = PyBool False \<and>
   message_passes toy_env (toy_sub\<lparr>input := ''print(other)''\<rparr>) (PyBool False)
     (messages built_cls ! 0) \<and>
   message_passes toy_env (toy_sub\<lparr>input := ''print(other)''\<rparr>) (PyBool False)
     (messages built_cls ! 1) \<and>
   message (messages built_cls ! 1) = dict_message ''zed hint'' \<and>
   snd (check_with_messages toy_env built_cls (toy_sub\<lparr>input := ''print(other)''\<rparr>))
     = Inr (dict_message ''abe hint'')"
  by code_simp

section \<open>Properties of the checks\<close>






text \<open>
  What the structural matcher returns when submission and template parse: \<^verbatim>\<open>True\<close> if the
  trees are alike; if they are not, but the two lower-cased texts parse and their trees are
  alike, the case-sensitivity message. \<^verbatim>\<open>VerbatimStep.check\<close> is this matcher on the program
  of the class.
\<close>

lemma tree_matches_cases:
  assumes "ast_parse E (input sub) = Inr p" and "ast_parse E template = Inr t"
  shows "(is_ast_like E p t \<longrightarrow> snd (tree_matches E sub template) = Inr (PyBool True)) \<and>
         (\<not> is_ast_like E p t \<and>
          ast_parse E (str_lower E (input sub)) = Inr lp \<and>
          ast_parse E (str_lower E template) = Inr lt \<and>
          is_ast_like E lp lt \<longrightarrow>
          snd (tree_matches E sub template) = Inr (dict_message case_message)) \<and>
         (program (attrs cls) = ProgramText template \<longrightarrow>
          VerbatimStep_check E cls sub = tree_matches E sub template)"
  using assms
  by (auto simp: tree_matches_def VerbatimStep_check_def matches_program_def)

text \<open>
  C4 fails in the code where lower-casing makes a keyword of a name: the submission
  \<^verbatim>\<open>If = 3\<close> differs from the template \<^verbatim>\<open>IF = 3\<close> only by the case of the name, both parse and
  their trees differ, and the lower-cased text \<^verbatim>\<open>if = 3\<close> does not parse; the retry of the
  matcher raises the parse fault and \<^verbatim>\<open>check_step\<close> returns \<^verbatim>\<open>False\<close>, not the
  case-sensitivity message.
\<close>

theorem case_retry_fails_on_keyword:
  "str_lower keyword_env ''If = 3'' = str_lower keyword_env ''IF = 3'' \<and>
   ast_parse keyword_env ''If = 3'' = Inr ''If=3'' \<and>
   ast_parse keyword_env ''IF = 3'' = Inr ''IF=3'' \<and>
   \<not> is_ast_like keyword_env ''If=3'' ''IF=3'' \<and>
   str_lower keyword_env ''If = 3'' = ''if = 3'' \<and>
   ast_parse keyword_env ''if = 3'' = Inl SyntaxError \<and>
   tree_matches keyword_env (toy_sub\<lparr>input := ''If = 3''\<rparr>) ''IF = 3'' =
     ([CallParse ''If = 3'', CallParse ''IF = 3'', CallIsAstLike, CallParse ''if = 3''],
      Inl SyntaxError) \<and>
   check_step keyword_env keyword_page
      \<lparr>entry_step_name = ''Assign'', entry_input = ''If = 3'', entry_source = ''editor''\<rparr>
      PyNone Map.empty =
     ([CallCheck ''Step'', CallParse ''If = 3'', CallParse ''IF = 3'', CallIsAstLike,
       CallParse ''if = 3''], Inr (PyBool False))"
  by code_simp

lemma basic_signature_remove_first:
  "f_params sol = p # ps \<Longrightarrow>
   basic_signature (signature_function sol) True = basic_signature (map fst ps) False"
  by (simp add: basic_signature_def signature_function_def)

text \<open>
  C5, as the code has it. For a submission that is not from the shell and a solution with a
  first parameter that names a function other than \<open>solution\<close>: when the console has no such
  name, when it binds it to something that is no function, or when the parameters of the
  learner's function differ from those of the solution without its first parameter, the
  check returns the diagnostic dict for that case and \<^verbatim>\<open>check_exercise\<close> is not called; the
  look-up comes first, then the test for a function, then the signatures. Only when all
  three hold are the tests run.
\<close>

theorem exercise_check_guards:
  assumes "code_source sub \<noteq> ''shell''"
    and "solution (attrs cls) = Some sol"
    and "f_name sol \<noteq> ''solution''"
    and "f_params sol = p # ps"
  shows "(console_locals sub (f_name sol) = None \<longrightarrow>
            ExerciseStep_check E cls sub =
              ([CallLocals (f_name sol)],
               Inr (dict_message (''You must define a function '' @
                                  backtick @ f_name sol @ backtick)))) \<and>
         (\<forall>v. console_locals sub (f_name sol) = Some v \<and> (\<forall>g. v \<noteq> PyFunction g) \<longrightarrow>
            ExerciseStep_check E cls sub =
              ([CallLocals (f_name sol), CallIsFunction (f_name sol)],
               Inr (dict_message (backtick @ f_name sol @ backtick @
                                  '' is not a function.'')))) \<and>
         (\<forall>g. console_locals sub (f_name sol) = Some (PyFunction g) \<and>
              basic_signature (signature_function g) False
                \<noteq> basic_signature (signature_function sol) True \<longrightarrow>
            ExerciseStep_check E cls sub =
              ([CallLocals (f_name sol), CallIsFunction (f_name sol),
                CallSignature (f_name g), CallSignature (f_name sol)],
               Inr (dict_message
                      (signature_message (f_name sol)
                         (basic_signature (signature_function sol) True)
                         (basic_signature (signature_function g) False))))) \<and>
         (\<forall>g. console_locals sub (f_name sol) = Some (PyFunction g) \<and>
              basic_signature (signature_function g) False
                = basic_signature (signature_function sol) True \<longrightarrow>
            ExerciseStep_check E cls sub =
              ([CallLocals (f_name sol), CallIsFunction (f_name sol),
                CallSignature (f_name g), CallSignature (f_name sol), CallCheckExercise],
               check_exercise E (FromFunction g) (Some sol) cls))"
proof (intro conjI allI impI)
  assume "console_locals sub (f_name sol) = None"
  with assms show "ExerciseStep_check E cls sub =
              ([CallLocals (f_name sol)],
               Inr (dict_message (''You must define a function '' @
                                  backtick @ f_name sol @ backtick)))"
    by (simp add: ExerciseStep_check_def Let_def)
next
  fix v
  assume "console_locals sub (f_name sol) = Some v \<and> (\<forall>g. v \<noteq> PyFunction g)"
  with assms show "ExerciseStep_check E cls sub =
              ([CallLocals (f_name sol), CallIsFunction (f_name sol)],
               Inr (dict_message (backtick @ f_name sol @ backtick @
                                  '' is not a function.'')))"
    by (cases v) (simp_all add: ExerciseStep_check_def Let_def)
next
  fix g
  assume "console_locals sub (f_name sol) = Some (PyFunction g) \<and>
              basic_signature (signature_function g) False
                \<noteq> basic_signature (signature_function sol) True"
  with assms basic_signature_remove_first [of sol p ps]
  show "ExerciseStep_check E cls sub =
              ([CallLocals (f_name sol), CallIsFunction (f_name sol),
                CallSignature (f_name g), CallSignature (f_name sol)],
               Inr (dict_message
                      (signature_message (f_name sol)
                         (basic_signature (signature_function sol) True)
                         (basic_signature (signature_function g) False))))"
    by (simp add: ExerciseStep_check_def signature_bound_def Let_def)
next
  fix g
  assume "console_locals sub (f_name sol) = Some (PyFunction g) \<and>
              basic_signature (signature_function g) False
                = basic_signature (signature_function sol) True"
  with assms basic_signature_remove_first [of sol p ps]
  show "ExerciseStep_check E cls sub =
              ([CallLocals (f_name sol), CallIsFunction (f_name sol),
                CallSignature (f_name g), CallSignature (f_name sol), CallCheckExercise],
               check_exercise E (FromFunction g) (Some sol) cls)"
    by (simp add: ExerciseStep_check_def signature_bound_def Let_def)
qed

text \<open>
  C5 as stated fails for a submission from the shell: the console has no \<open>double\<close>, and the
  check returns \<^verbatim>\<open>False\<close>, not a diagnostic dict.
\<close>

theorem exercise_check_guards_counterexample:
  "solution (attrs exercise_cls) = Some double_solution \<and>
   f_name double_solution \<noteq> ''solution'' \<and>
   console_locals (toy_sub\<lparr>code_source := ''shell''\<rparr>) ''double'' = None \<and>
   ExerciseStep_check toy_env exercise_cls (toy_sub\<lparr>code_source := ''shell''\<rparr>)
     = ([], Inr (PyBool False)) \<and>
   \<not> is_dict (PyBool False)"
  by code_simp

theorem exercise_check_guards_witness:
  "ExerciseStep_check toy_env exercise_cls toy_sub =
     ([CallLocals ''double''],
      Inr (dict_message (''You must define a function '' @ backtick @ ''double'' @ backtick))) \<and>
   ExerciseStep_check toy_env exercise_cls
       (toy_sub\<lparr>console_locals := [''double'' \<mapsto> PyInt 2]\<rparr>) =
     ([CallLocals ''double'', CallIsFunction ''double''],
      Inr (dict_message (backtick @ ''double'' @ backtick @ '' is not a function.''))) \<and>
   ExerciseStep_check toy_env exercise_cls
       (toy_sub\<lparr>console_locals := [''double'' \<mapsto> PyFunction wrong_double]\<rparr>) =
     ([CallLocals ''double'', CallIsFunction ''double'', CallSignature ''double'',
       CallSignature ''double''],
      Inr (dict_message (signature_message ''double'' ''(x)'' ''(y)''))) \<and>
   ExerciseStep_check toy_env exercise_cls
       (toy_sub\<lparr>console_locals := [''double'' \<mapsto> PyFunction right_double]\<rparr>) =
     ([CallLocals ''double'', CallIsFunction ''double'', CallSignature ''double'',
       CallSignature ''double'', CallCheckExercise],
      Inr (PyBool True))"
proof -
  have s: "solution (attrs exercise_cls) = Some double_solution"
    by code_simp
  have n: "f_name double_solution \<noteq> ''solution''"
    by (simp add: double_solution_def)
  have p: "f_params double_solution = (''_'', None) # [(''x'', None)]"
    by (simp add: double_solution_def)
  have fn: "f_name double_solution = ''double''"
    by (simp add: double_solution_def)
  have sg: "basic_signature (signature_function double_solution) True = ''(x)''"
    "basic_signature (signature_function wrong_double) False = ''(y)''"
    "basic_signature (signature_function right_double) False = ''(x)''"
    "f_name wrong_double = ''double''" "f_name right_double = ''double''"
    by (simp_all add: basic_signature_def signature_function_def double_solution_def
          wrong_double_def right_double_def)
  have ce: "check_exercise toy_env (FromFunction right_double) (Some double_solution) exercise_cls
              = Inr (PyBool True)"
    by (simp add: toy_env_def)
  have 1: "ExerciseStep_check toy_env exercise_cls toy_sub =
     ([CallLocals ''double''],
      Inr (dict_message (''You must define a function '' @ backtick @ ''double'' @ backtick)))"
    using exercise_check_guards [OF _ s n p, of toy_sub toy_env] fn
    by (simp add: toy_sub_def)
  have 2: "ExerciseStep_check toy_env exercise_cls
       (toy_sub\<lparr>console_locals := [''double'' \<mapsto> PyInt 2]\<rparr>) =
     ([CallLocals ''double'', CallIsFunction ''double''],
      Inr (dict_message (backtick @ ''double'' @ backtick @ '' is not a function.'')))"
    using exercise_check_guards [OF _ s n p,
            of "toy_sub\<lparr>console_locals := [''double'' \<mapsto> PyInt 2]\<rparr>" toy_env] fn
    by (simp add: toy_sub_def)
  have 3: "ExerciseStep_check toy_env exercise_cls
       (toy_sub\<lparr>console_locals := [''double'' \<mapsto> PyFunction wrong_double]\<rparr>) =
     ([CallLocals ''double'', CallIsFunction ''double'', CallSignature ''double'',
       CallSignature ''double''],
      Inr (dict_message (signature_message ''double'' ''(x)'' ''(y)'')))"
    using exercise_check_guards [OF _ s n p,
            of "toy_sub\<lparr>console_locals := [''double'' \<mapsto> PyFunction wrong_double]\<rparr>" toy_env]
      fn sg
    by (simp add: toy_sub_def)
  have 4: "ExerciseStep_check toy_env exercise_cls
       (toy_sub\<lparr>console_locals := [''double'' \<mapsto> PyFunction right_double]\<rparr>) =
     ([CallLocals ''double'', CallIsFunction ''double'', CallSignature ''double'',
       CallSignature ''double'', CallCheckExercise],
      Inr (PyBool True))"
    using exercise_check_guards [OF _ s n p,
            of "toy_sub\<lparr>console_locals := [''double'' \<mapsto> PyFunction right_double]\<rparr>" toy_env]
      fn sg ce
    by (simp add: toy_sub_def)
  from 1 2 3 4 show ?thesis by simp
qed

lemma generate_items_keys:
  "generate_items E hs = Inr kvs \<Longrightarrow> map fst kvs = map fst hs"
proof (induction hs arbitrary: kvs)
  case Nil
  then show ?case by simp
next
  case (Cons h hs)
  obtain n t where h: "h = (n, t)" by (cases h)
  from Cons.prems h obtain v kvs' where "generate_items E hs = Inr kvs'" and "kvs = (n, v) # kvs'"
    by (auto split: sum.splits)
  with Cons.IH h show ?case by simp
qed

lemma generate_items_returns:
  "\<forall>nt \<in> set hs. \<exists>v. generate_for_type E (snd nt) = Inr v \<Longrightarrow>
   \<exists>kvs. generate_items E hs = Inr kvs"
proof (induction hs)
  case Nil
  then show ?case by simp
next
  case (Cons h hs)
  obtain n t where h: "h = (n, t)" by (cases h)
  from Cons h show ?case by (auto split: sum.splits)
qed

lemma generate_items_fault:
  "generate_items E hs = Inl e \<Longrightarrow> \<exists>nt \<in> set hs. generate_for_type E (snd nt) = Inl e"
proof (induction hs)
  case Nil
  then show ?case by simp
next
  case (Cons h hs)
  obtain n t where h: "h = (n, t)" by (cases h)
  from Cons h show ?case by (auto split: sum.splits)
qed

lemma generate_items_raises:
  "\<exists>nt \<in> set hs. \<exists>e. generate_for_type E (snd nt) = Inl e \<Longrightarrow>
   \<exists>e. generate_items E hs = Inl e"
proof (induction hs)
  case Nil
  then show ?case by simp
next
  case (Cons h hs)
  obtain n t where h: "h = (n, t)" by (cases h)
  show ?case
  proof (cases "generate_for_type E t")
    case (Inl e)
    with h show ?thesis by simp
  next
    case (Inr v)
    with Cons.prems h have "\<exists>nt \<in> set hs. \<exists>e. generate_for_type E (snd nt) = Inl e"
      by auto
    from Cons.IH [OF this] obtain e where "generate_items E hs = Inl e" by blast
    with Inr h show ?thesis by simp
  qed
qed

lemma map_filter_annotated:
  "map fst (List.map_filter (\<lambda>(n, a). case a of None \<Rightarrow> None | Some t \<Rightarrow> Some (n, t)) ps)
   = map fst (filter (\<lambda>(n, a). a \<noteq> None) ps)"
  by (induction ps) (auto simp: List.map_filter_simps split: option.splits)

lemma get_type_hints_keys:
  "map fst (get_type_hints sol) =
     map fst (filter (\<lambda>(n, a). a \<noteq> None) (f_params sol)) @
     (case f_return sol of None \<Rightarrow> [] | Some t \<Rightarrow> [''return''])"
  by (simp add: get_type_hints_def map_filter_annotated split: option.splits)

text \<open>
  C6, as the code has it. \<^verbatim>\<open>generate_inputs\<close> has one entry for every annotated parameter of
  the solution (and for \<^verbatim>\<open>return\<close> when annotated) and none for a parameter without
  annotation: it returns such a dict when \<^verbatim>\<open>generate_for_type\<close> returns for every annotated
  type, and it raises exactly a fault that \<^verbatim>\<open>generate_for_type\<close> raises for an annotated type.
\<close>

theorem generate_inputs_annotated_only:
  assumes "solution (attrs cls) = Some sol"
  shows "map fst (get_type_hints sol) =
           map fst (filter (\<lambda>(n, a). a \<noteq> None) (f_params sol)) @
           (case f_return sol of None \<Rightarrow> [] | Some t \<Rightarrow> [''return'']) \<and>
         ((\<forall>nt \<in> set (get_type_hints sol). \<exists>v. generate_for_type E (snd nt) = Inr v) \<longrightarrow>
            (\<exists>kvs. generate_inputs E cls = Inr (PyDict kvs) \<and>
                   map fst kvs = map fst (get_type_hints sol))) \<and>
         ((\<exists>nt \<in> set (get_type_hints sol). \<exists>e. generate_for_type E (snd nt) = Inl e) \<longrightarrow>
            (\<exists>e. generate_inputs E cls = Inl e)) \<and>
         (\<forall>e. generate_inputs E cls = Inl e \<longrightarrow>
            (\<exists>nt \<in> set (get_type_hints sol). generate_for_type E (snd nt) = Inl e))"
proof (intro conjI impI allI)
  show "map fst (get_type_hints sol) =
           map fst (filter (\<lambda>(n, a). a \<noteq> None) (f_params sol)) @
           (case f_return sol of None \<Rightarrow> [] | Some t \<Rightarrow> [''return''])"
    by (rule get_type_hints_keys)
next
  assume "\<forall>nt \<in> set (get_type_hints sol). \<exists>v. generate_for_type E (snd nt) = Inr v"
  from generate_items_returns [OF this] obtain kvs where
    k: "generate_items E (get_type_hints sol) = Inr kvs" by blast
  with assms generate_items_keys [OF k]
  show "\<exists>kvs. generate_inputs E cls = Inr (PyDict kvs) \<and>
              map fst kvs = map fst (get_type_hints sol)"
    by (simp add: generate_inputs_def)
next
  assume "\<exists>nt \<in> set (get_type_hints sol). \<exists>e. generate_for_type E (snd nt) = Inl e"
  from generate_items_raises [OF this] assms
  show "\<exists>e. generate_inputs E cls = Inl e"
    by (auto simp: generate_inputs_def)
next
  fix e
  assume "generate_inputs E cls = Inl e"
  with assms have "generate_items E (get_type_hints sol) = Inl e"
    by (auto simp: generate_inputs_def split: sum.splits)
  then show "\<exists>nt \<in> set (get_type_hints sol). generate_for_type E (snd nt) = Inl e"
    by (rule generate_items_fault)
qed

text \<open>
  C6 as stated fails: the parameter \<open>y\<close> has no annotation and the generator knows the type
  \<open>int\<close> only; \<^verbatim>\<open>generate_inputs\<close> returns the inputs without \<open>y\<close> and raises nothing. With no
  annotation at all it returns the empty dict, although the generator fails on every type.
\<close>

theorem generate_inputs_annotated_only_counterexample:
  "f_params typed_solution = [(''_'', None), (''x'', Some ''int''), (''y'', None)] \<and>
   generate_for_type int_env ''str'' = Inl TypeNotSupported \<and>
   generate_inputs int_env typed_cls = Inr (PyDict [(''x'', PyInt 1)]) \<and>
   generate_inputs toy_env exercise_cls = Inr (PyDict [])"
  by code_simp

theorem generate_inputs_annotated_only_witness:
  "solution (attrs typed_cls) = Some typed_solution \<and>
   map fst (get_type_hints typed_solution) = [''x''] \<and>
   (\<exists>kvs. generate_inputs int_env typed_cls = Inr (PyDict kvs) \<and> map fst kvs = [''x''])"
proof -
  have a: "solution (attrs typed_cls) = Some typed_solution"
    by code_simp
  have b: "map fst (get_type_hints typed_solution) = [''x'']" by code_simp
  have c: "\<forall>nt \<in> set (get_type_hints typed_solution).
             \<exists>v. generate_for_type int_env (snd nt) = Inr v"
    by (simp add: get_type_hints_def typed_solution_def List.map_filter_simps int_env_def)
  from generate_inputs_annotated_only [OF a, of int_env] c
  have "\<exists>kvs. generate_inputs int_env typed_cls = Inr (PyDict kvs) \<and>
              map fst kvs = map fst (get_type_hints typed_solution)"
    by blast
  with a b show ?thesis by simp
qed

section \<open>The build-time invariant\<close>








end
